theory Spec2Isabelle
  imports Complex_Main "HOL-Library.Word"
begin

section \<open>Python values and exceptions\<close>

text \<open>
  The exceptions that the code of \<^verbatim>\<open>visualisation.py\<close> can raise by itself or through
  the Python operations it uses (list indexing, \<^verbatim>\<open>%\<close>, \<^verbatim>\<open>max\<close>, message constructors,
  numpy indexing and broadcasting).
\<close>

datatype error = IndexError | TypeError | ValueError | ZeroDivisionError

text \<open>
  The dynamically typed values that callers put into a point entry: numbers, booleans,
  strings and \<^verbatim>\<open>None\<close>.
\<close>

datatype pyval = PyInt int | PyBool bool | PyFloat real | PyStr string | PyNone

text \<open>
  \<^verbatim>\<open>xs[i]\<close> on a Python list with an integer index: an index from \<open>-len\<close> up to \<open>-1\<close>
  counts from the end, anything outside \<open>-len \<dots> len - 1\<close> raises IndexError.
\<close>

definition list_getitem :: "'a list \<Rightarrow> int \<Rightarrow> error + 'a" where
  "list_getitem xs i =
     (if 0 \<le> i \<and> i < int (length xs) then Inr (xs ! nat i)
      else if - int (length xs) \<le> i \<and> i < 0 then Inr (xs ! nat (int (length xs) + i))
      else Inl IndexError)"

text \<open>
  \<^verbatim>\<open>xs[v]\<close> for a dynamically typed subscript: an int indexes, a bool is the int 0 or
  1, every other value raises TypeError (list indices must be integers).
\<close>

fun list_subscript :: "'a list \<Rightarrow> pyval \<Rightarrow> error + 'a" where
  "list_subscript xs (PyInt i) = list_getitem xs i"
| "list_subscript xs (PyBool b) = list_getitem xs (if b then 1 else 0)"
| "list_subscript xs (PyFloat r) = Inl TypeError"
| "list_subscript xs (PyStr s) = Inl TypeError"
| "list_subscript xs PyNone = Inl TypeError"

section \<open>LabelColours\<close>

text \<open>
  \<^verbatim>\<open>LabelColours.__init__\<close>: the object holds one field, the colour list, so the model
  of an instance is that list. Without an argument the 22 default colours are used.
\<close>

definition default_colour_list :: "int list list" where
  "default_colour_list =
     [[230, 25, 75], [60, 180, 75], [255, 225, 25], [0, 130, 200], [245, 130, 48], [145, 30, 180],
      [70, 240, 240], [240, 50, 230], [210, 245, 60], [250, 190, 190], [0, 128, 128],
      [230, 190, 255], [170, 110, 40], [255, 250, 200], [128, 0, 0], [170, 255, 195],
      [128, 128, 0], [255, 215, 180], [0, 0, 128], [128, 128, 128], [255, 255, 255], [0, 0, 0]]"

definition LabelColours_init :: "'c list option \<Rightarrow> 'c list \<Rightarrow> 'c list" where
  "LabelColours_init colour_list dflt = (case colour_list of None \<Rightarrow> dflt | Some cs \<Rightarrow> cs)"

text \<open>
  \<^verbatim>\<open>LabelColours.__getitem__\<close>, statement by statement: a negative item is negated, an
  item at or beyond the length is reduced with \<^verbatim>\<open>%\<close> (which raises ZeroDivisionError
  when the list is empty), and the list is indexed.
\<close>

definition LabelColours_getitem :: "'c list \<Rightarrow> int \<Rightarrow> error + 'c" where
  "LabelColours_getitem colours item =
     (let item1 = (if item < 0 then item * (- 1) else item) in
      if item1 \<ge> int (length colours) then
        (if length colours = 0 then Inl ZeroDivisionError
         else list_getitem colours (item1 mod int (length colours)))
      else list_getitem colours item1)"

section \<open>ROS messages\<close>

text \<open>
  The fields of \<^verbatim>\<open>std_msgs/Header\<close>, \<^verbatim>\<open>geometry_msgs/Pose\<close> and
  \<^verbatim>\<open>visualization_msgs/Marker\<close> that the code reads or writes. A time stamp is a
  number, \<^verbatim>\<open>rospy.Time()\<close> is 0. Message fields are not type checked on assignment, so
  a position holds whatever values the caller supplied.
\<close>

record Header =
  stamp :: nat
  frame_id :: string

type_synonym Point = "pyval \<times> pyval \<times> pyval"

type_synonym Quaternion = "real \<times> real \<times> real \<times> real"

record Pose =
  position :: Point
  orientation :: Quaternion

record Marker =
  header :: Header
  marker_id :: int
  marker_type :: int
  action :: int
  pose :: Pose
  scale :: "real \<times> real \<times> real"
  color :: "real \<times> real \<times> real \<times> real"
  lifetime :: real

record PoseArray =
  pa_header :: Header
  pa_poses :: "Pose list"

definition Header_default :: Header where
  "Header_default = \<lparr>stamp = 0, frame_id = []\<rparr>"

definition Pose_default :: Pose where
  "Pose_default = \<lparr>position = (PyFloat 0, PyFloat 0, PyFloat 0), orientation = (0, 0, 0, 0)\<rparr>"

text \<open>\<^verbatim>\<open>Marker()\<close>: every field at its default; \<open>color\<close> is (r, g, b, a).\<close>

definition Marker_default :: Marker where
  "Marker_default =
     \<lparr>header = Header_default, marker_id = 0, marker_type = 0, action = 0, pose = Pose_default,
      scale = (0, 0, 0), color = (0, 0, 0, 0), lifetime = 0\<rparr>"

text \<open>The constants \<^verbatim>\<open>Marker.SPHERE\<close>, \<^verbatim>\<open>Marker.ADD\<close> and the action 3 (delete all).\<close>

definition SPHERE :: int where "SPHERE = 2"

definition ADD :: int where "ADD = 0"

definition DELETEALL :: int where "DELETEALL = 3"

text \<open>
  \<^verbatim>\<open>Point(*pts)\<close>, the constructor of a generated message class with three slots:
  called with no positional argument it builds the default message; called with
  positional arguments it raises TypeError unless there are exactly as many as slots;
  a slot left \<^verbatim>\<open>None\<close> is set to 0.
\<close>

definition none_to_zero :: "pyval \<Rightarrow> pyval" where
  "none_to_zero v = (if v = PyNone then PyFloat 0 else v)"

fun Point_args :: "pyval list \<Rightarrow> error + Point" where
  "Point_args [] = Inr (PyFloat 0, PyFloat 0, PyFloat 0)"
| "Point_args [a, b, c] = Inr (none_to_zero a, none_to_zero b, none_to_zero c)"
| "Point_args args = Inl TypeError"

section \<open>PoseArrayPublisher\<close>

text \<open>
  The publisher object with its frame id, and the messages its topic has received, in
  order.
\<close>

record PoseArrayPublisher =
  pap_frame_id :: "string option"
  pap_published :: "PoseArray list"

definition PoseArrayPublisher_init :: "string option \<Rightarrow> PoseArrayPublisher" where
  "PoseArrayPublisher_init fid = \<lparr>pap_frame_id = fid, pap_published = []\<rparr>"

text \<open>
  The loop \<^verbatim>\<open>for pts in xyz: poses.append(Pose(position=Point(*pts), ...))\<close>. The
  constructor \<^verbatim>\<open>Point\<close> belongs to the message library, so the loop takes it as the
  parameter \<open>Point_new\<close>; \<open>Point_args\<close> is what the generated class does.
\<close>

fun build_poses ::
  "(pyval list \<Rightarrow> error + Point) \<Rightarrow> Pose list \<Rightarrow> pyval list list \<Rightarrow> error + Pose list" where
  "build_poses Point_new acc [] = Inr acc"
| "build_poses Point_new acc (pts # xyz) =
     (case Point_new pts of
        Inl e \<Rightarrow> Inl e
      | Inr p \<Rightarrow> build_poses Point_new (acc @ [\<lparr>position = p, orientation = (0, 0, 0, 1)\<rparr>]) xyz)"

text \<open>
  \<^verbatim>\<open>PoseArrayPublisher.visualise_points\<close>. \<open>now\<close> is what \<^verbatim>\<open>rospy.Time.now()\<close> returns.
  The result is the publisher after the call and the exception raised, if any.
\<close>

definition PoseArrayPublisher_visualise_points ::
  "(pyval list \<Rightarrow> error + Point) \<Rightarrow> PoseArrayPublisher \<Rightarrow> pyval list list \<Rightarrow> Header option \<Rightarrow>
   nat \<Rightarrow> PoseArrayPublisher \<times> error option" where
  "PoseArrayPublisher_visualise_points Point_new self xyz hdr now =
     (let header0 = (case hdr of None \<Rightarrow> Header_default\<lparr>stamp := now\<rparr> | Some h \<Rightarrow> h);
          header1 = (case pap_frame_id self of
                       None \<Rightarrow> header0
                     | Some f \<Rightarrow> if f = [] then header0 else header0\<lparr>frame_id := f\<rparr>)
      in case build_poses Point_new [] xyz of
           Inl e \<Rightarrow> (self, Some e)
         | Inr ps \<Rightarrow>
             (self\<lparr>pap_published := pap_published self @ [\<lparr>pa_header = header1, pa_poses = ps\<rparr>]\<rparr>,
              None))"

section \<open>MarkerPublisher\<close>

text \<open>
  The publisher object: its frame id, the colour sub-palette, the id counter, and, as
  the effect of the calls, the markers its topic has received and the entries passed to
  \<^verbatim>\<open>rospy.logerr\<close>, both in order.
\<close>

record MarkerPublisher =
  pub_frame_id :: string
  colours :: "real list list"
  last_object_id :: int
  published :: "Marker list"
  logged :: "pyval list list"

text \<open>\<^verbatim>\<open>max(xs)\<close>: ValueError on an empty sequence.\<close>

fun py_max :: "real list \<Rightarrow> error + real" where
  "py_max [] = Inl ValueError"
| "py_max (v # vs) = Inr (fold max vs v)"

text \<open>
  \<^verbatim>\<open>MarkerPublisher.__init__\<close>. The colour components are numbers; the division by
  \<^verbatim>\<open>255.0\<close> is taken over the reals.
\<close>

definition MarkerPublisher_init :: "string \<Rightarrow> real list list option \<Rightarrow> error + MarkerPublisher" where
  "MarkerPublisher_init fid colours_arg =
     (let colours0 = (case colours_arg of None \<Rightarrow> [[1, 1, 1]] | Some cs \<Rightarrow> cs) in
      case list_getitem colours0 0 of
        Inl e \<Rightarrow> Inl e
      | Inr first \<Rightarrow>
          (case py_max first of
             Inl e \<Rightarrow> Inl e
           | Inr m \<Rightarrow>
               Inr \<lparr>pub_frame_id = fid,
                    colours = (if m > 1 then map (\<lambda>c1. map (\<lambda>c2. c2 / 255) c1) colours0
                               else colours0),
                    last_object_id = - 1, published = [], logged = []\<rparr>))"

definition clear_marker :: "MarkerPublisher \<Rightarrow> Marker" where
  "clear_marker self =
     Marker_default\<lparr>action := DELETEALL, header := \<lparr>stamp = 0, frame_id = pub_frame_id self\<rparr>\<rparr>"

definition publish :: "MarkerPublisher \<Rightarrow> Marker \<Rightarrow> MarkerPublisher" where
  "publish self m = self\<lparr>published := published self @ [m]\<rparr>"

definition logerr :: "MarkerPublisher \<Rightarrow> pyval list \<Rightarrow> MarkerPublisher" where
  "logerr self point_info = self\<lparr>logged := logged self @ [point_info]\<rparr>"

definition clear_markers :: "MarkerPublisher \<Rightarrow> MarkerPublisher" where
  "clear_markers self = (publish self (clear_marker self))\<lparr>last_object_id := - 1\<rparr>"

definition get_object_id :: "MarkerPublisher \<Rightarrow> int \<times> MarkerPublisher" where
  "get_object_id self =
     (last_object_id self + 1, self\<lparr>last_object_id := last_object_id self + 1\<rparr>)"

text \<open>
  The body of the loop of \<^verbatim>\<open>visualise_points\<close> for a point of 3 or 4 components, from
  \<^verbatim>\<open>x, y, z = point_info[:3]\<close> to the publish: the id is taken before the colour is
  looked up, and the marker is published only after \<^verbatim>\<open>colour[0]\<close>, \<^verbatim>\<open>colour[1]\<close> and
  \<^verbatim>\<open>colour[2]\<close> have been read.
\<close>

definition visualise_point ::
  "MarkerPublisher \<Rightarrow> Header \<Rightarrow> real option \<Rightarrow> pyval list \<Rightarrow> MarkerPublisher \<times> error option" where
  "visualise_point self hdr duration point_info =
     (let colour_id = (if length point_info = 4 then point_info ! 3 else PyInt 0);
          (new_id, self1) = get_object_id self
      in case list_subscript (colours self1) colour_id of
           Inl e \<Rightarrow> (self1, Some e)
         | Inr colour \<Rightarrow>
             (case list_getitem colour 0 of
                Inl e \<Rightarrow> (self1, Some e)
              | Inr r \<Rightarrow>
                  (case list_getitem colour 1 of
                     Inl e \<Rightarrow> (self1, Some e)
                   | Inr g \<Rightarrow>
                       (case list_getitem colour 2 of
                          Inl e \<Rightarrow> (self1, Some e)
                        | Inr b \<Rightarrow>
                            (publish self1
                               (Marker_default
                                  \<lparr>header := hdr\<lparr>frame_id := pub_frame_id self1\<rparr>,
                                   marker_id := new_id,
                                   marker_type := SPHERE,
                                   action := ADD,
                                   pose := \<lparr>position = (point_info ! 0, point_info ! 1, point_info ! 2),
                                            orientation = (0, 0, 0, 1)\<rparr>,
                                   scale := (0.05, 0.05, 0.05),
                                   color := (r, g, b, 1),
                                   lifetime := (case duration of None \<Rightarrow> 0 | Some d \<Rightarrow> d)\<rparr>),
                             None)))))"

text \<open>
  The loop \<^verbatim>\<open>for point_info in point_information\<close>: an entry whose length is neither 3
  nor 4 is logged and the loop continues; an exception ends the loop.
\<close>

fun visualise_loop ::
  "MarkerPublisher \<Rightarrow> Header \<Rightarrow> real option \<Rightarrow> pyval list list \<Rightarrow> MarkerPublisher \<times> error option" where
  "visualise_loop self hdr duration [] = (self, None)"
| "visualise_loop self hdr duration (point_info # rest) =
     (if length point_info \<noteq> 3 \<and> length point_info \<noteq> 4
      then visualise_loop (logerr self point_info) hdr duration rest
      else case visualise_point self hdr duration point_info of
             (self1, Some e) \<Rightarrow> (self1, Some e)
           | (self1, None) \<Rightarrow> visualise_loop self1 hdr duration rest)"

text \<open>
  \<^verbatim>\<open>MarkerPublisher.visualise_points(point_information, header, clear, duration)\<close>;
  \<open>now\<close> is what \<^verbatim>\<open>rospy.Time.now()\<close> returns.
\<close>

definition visualise_points ::
  "MarkerPublisher \<Rightarrow> pyval list list \<Rightarrow> Header option \<Rightarrow> bool \<Rightarrow> real option \<Rightarrow> nat \<Rightarrow>
   MarkerPublisher \<times> error option" where
  "visualise_points self point_information hdr clear duration now =
     (let self1 = (if clear then clear_markers self else self);
          header1 = (case hdr of None \<Rightarrow> Header_default\<lparr>stamp := now\<rparr> | Some h \<Rightarrow> h)
      in visualise_loop self1 header1 duration point_information)"

text \<open>
  Vocabulary for the claims: a point entry that the loop turns into a marker without
  raising, for a given sub-palette (3 components, or 4 with a subscript that selects a
  colour of at least 3 components); and the markers a call has added to the topic.
\<close>

definition point_ok :: "real list list \<Rightarrow> pyval list \<Rightarrow> bool" where
  "point_ok cols point_info =
     ((length point_info = 3 \<or> length point_info = 4) \<and>
      (case list_subscript cols (if length point_info = 4 then point_info ! 3 else PyInt 0) of
         Inl e \<Rightarrow> False
       | Inr colour \<Rightarrow> 3 \<le> length colour))"


section \<open>Images and the numpy operations of the mask blend\<close>

text \<open>
  The image is a numpy array of shape (height, width, channels) with 8-bit unsigned
  elements, as the encodings \<^verbatim>\<open>rgb8\<close> and \<^verbatim>\<open>bgr8\<close> give: the shape and the element
  at each row, column and channel. Elements outside the shape are never read or written.
\<close>

record ndarray =
  height :: nat
  width :: nat
  channels :: nat
  pix :: "nat \<Rightarrow> nat \<Rightarrow> nat \<Rightarrow> 8 word"

text \<open>
  One integer of an index array against an axis of length \<open>n\<close>: negative values count
  from the end, values outside \<open>-n \<dots> n - 1\<close> raise IndexError.
\<close>

definition np_index :: "nat \<Rightarrow> int \<Rightarrow> error + nat" where
  "np_index n i =
     (if 0 \<le> i \<and> i < int n then Inr (nat i)
      else if - int n \<le> i \<and> i < 0 then Inr (nat (int n + i))
      else Inl IndexError)"

text \<open>
  The two index arrays of \<^verbatim>\<open>image[(xs, ys)]\<close> are broadcast against each other: equal
  lengths pair up, an array of length 1 is repeated, anything else raises IndexError.
\<close>

definition np_broadcast_pairs :: "int list \<Rightarrow> int list \<Rightarrow> error + (int \<times> int) list" where
  "np_broadcast_pairs xs ys =
     (if length xs = length ys then Inr (zip xs ys)
      else if length xs = 1 then Inr (map (\<lambda>j. (xs ! 0, j)) ys)
      else if length ys = 1 then Inr (map (\<lambda>i. (i, ys ! 0)) xs)
      else Inl IndexError)"

fun np_coords :: "nat \<Rightarrow> nat \<Rightarrow> (int \<times> int) list \<Rightarrow> error + (nat \<times> nat) list" where
  "np_coords h w [] = Inr []"
| "np_coords h w ((i, j) # rest) =
     (case np_index h i of
        Inl e \<Rightarrow> Inl e
      | Inr r \<Rightarrow>
          (case np_index w j of
             Inl e \<Rightarrow> Inl e
           | Inr c \<Rightarrow> (case np_coords h w rest of Inl e \<Rightarrow> Inl e | Inr cs \<Rightarrow> Inr ((r, c) # cs))))"

text \<open>The pixels that \<^verbatim>\<open>image[mask]\<close> selects, with \<open>mask = (xs, ys)\<close>: first axis \<open>xs\<close>.\<close>

definition mask_coords :: "ndarray \<Rightarrow> int list \<times> int list \<Rightarrow> error + (nat \<times> nat) list" where
  "mask_coords img msk =
     (case np_broadcast_pairs (fst msk) (snd msk) of
        Inl e \<Rightarrow> Inl e
      | Inr pairs \<Rightarrow> np_coords (height img) (width img) pairs)"

text \<open>
  Storing a float into the 8-bit array truncates it towards zero; \<^verbatim>\<open>int(f)\<close> on a
  Python float truncates towards zero as well.
\<close>

definition pyint :: "real \<Rightarrow> int" where
  "pyint r = (if r < 0 then - \<lfloor>- r\<rfloor> else \<lfloor>r\<rfloor>)"

definition to_uint8 :: "real \<Rightarrow> 8 word" where
  "to_uint8 r = word_of_int (pyint r)"

text \<open>
  \<^verbatim>\<open>image[mask] = (image[mask] * 0.5) + class_colour_f\<close>. The right-hand side is
  computed from the image as it is before the assignment: the selected pixels are read
  (IndexError for a bad index), multiplied by 0.5 as floats, and the colour list is
  added along the channel axis, which raises ValueError unless the list has one element
  per channel or a single element. The products and sums of such halves are exact in
  floating point, so they are taken over the reals. The assignment then stores the
  truncated values at the selected pixels.
\<close>

definition blend_mask ::
  "ndarray \<Rightarrow> int list \<times> int list \<Rightarrow> real list \<Rightarrow> ndarray \<times> error option" where
  "blend_mask img msk class_colour_f =
     (case mask_coords img msk of
        Inl e \<Rightarrow> (img, Some e)
      | Inr coords \<Rightarrow>
          if length class_colour_f \<noteq> channels img \<and> length class_colour_f \<noteq> 1
          then (img, Some ValueError)
          else
            (img\<lparr>pix := (\<lambda>r c ch.
                       if (r, c) \<in> set coords \<and> ch < channels img
                       then to_uint8 (real (unat (pix img r c ch)) * 0.5 +
                                      class_colour_f ! (if length class_colour_f = 1 then 0 else ch))
                       else pix img r c ch)\<rparr>,
             None))"

section \<open>Drawing detections on an image\<close>

record BoundingBox =
  x1 :: real
  y1 :: real
  x2 :: real
  y2 :: real
  class_id :: int
  score :: real

text \<open>A \<^verbatim>\<open>SegmentOfInterest\<close> message: the index arrays \<^verbatim>\<open>x\<close> and \<^verbatim>\<open>y\<close>.\<close>

record SegmentOfInterest =
  seg_x :: "int list"
  seg_y :: "int list"

text \<open>
  The detection message. \<^verbatim>\<open>class_labels\<close> and \<^verbatim>\<open>instances\<close> may be \<^verbatim>\<open>None\<close>.
\<close>

record detection_msg =
  class_labels :: "string list option"
  bounding_boxes :: "BoundingBox list"
  instances :: "SegmentOfInterest list option"

text \<open>
  The functions of the OpenCV binding that the renderer calls, and the one floating
  point product it computes, are parameters:
  \<^item> \<open>rectangle image pt1 pt2 colour thickness\<close> is \<^verbatim>\<open>cv2.rectangle\<close> (thickness 1 when
    the call gives none, -1 for a filled rectangle);
  \<^item> \<open>getTextSize text\<close> is \<^verbatim>\<open>cv2.getTextSize(text, font, font_scale, line_type)[0]\<close>;
  \<^item> \<open>putText image text org\<close> is \<^verbatim>\<open>cv2.putText\<close> with the font arguments of the call;
  \<^item> \<open>score_percent s\<close> is \<^verbatim>\<open>int(s * 100)\<close>.
\<close>

record cv2 =
  rectangle :: "ndarray \<Rightarrow> int \<times> int \<Rightarrow> int \<times> int \<Rightarrow> int list \<Rightarrow> int \<Rightarrow> ndarray"
  getTextSize :: "string \<Rightarrow> int \<times> int"
  putText :: "ndarray \<Rightarrow> string \<Rightarrow> int \<times> int \<Rightarrow> ndarray"
  score_percent :: "real \<Rightarrow> int"

text \<open>\<^verbatim>\<open>"rgb" not in encoding\<close> is a substring test.\<close>

fun starts_with :: "string \<Rightarrow> string \<Rightarrow> bool" where
  "starts_with [] s = True"
| "starts_with (a # p) [] = False"
| "starts_with (a # p) (b # s) = (a = b \<and> starts_with p s)"

fun str_contains :: "string \<Rightarrow> string \<Rightarrow> bool" where
  "str_contains needle [] = starts_with needle []"
| "str_contains needle (c # s) = (starts_with needle (c # s) \<or> str_contains needle s)"

text \<open>The decimal digits of an integer, for \<^verbatim>\<open>"{} {}%".format(name, percent)\<close>.\<close>

definition digit_char :: "nat \<Rightarrow> char" where
  "digit_char d = char_of (48 + d)"

function show_nat :: "nat \<Rightarrow> string" where
  "show_nat n = (if n < 10 then [digit_char n] else show_nat (n div 10) @ [digit_char (n mod 10)])"
  by pat_completeness auto
termination
  by (relation "measure (\<lambda>n. n)") auto

definition show_int :: "int \<Rightarrow> string" where
  "show_int i = (if i < 0 then CHR ''-'' # show_nat (nat (- i)) else show_nat (nat i))"

text \<open>
  The label of a detection, lines 58 to 66: skipped when \<open>classes\<close> is \<^verbatim>\<open>None\<close>;
  otherwise \<^verbatim>\<open>classes[class_id]\<close> is a plain list subscript.
\<close>

definition draw_label ::
  "cv2 \<Rightarrow> string list option \<Rightarrow> ndarray \<Rightarrow> BoundingBox \<Rightarrow> int \<times> int \<Rightarrow> int list \<Rightarrow>
   ndarray \<times> error option" where
  "draw_label cv classes img bounding_box pt1 class_colour =
     (case classes of
        None \<Rightarrow> (img, None)
      | Some cl \<Rightarrow>
          (case list_getitem cl (class_id bounding_box) of
             Inl e \<Rightarrow> (img, Some e)
           | Inr name \<Rightarrow>
               (let padding = 10;
                    class_name = name @ '' '' @ show_int (score_percent cv (score bounding_box)) @ ''%'';
                    (text_width, text_height) = getTextSize cv class_name;
                    pt3 = (fst pt1, snd pt1);
                    pt4 = (fst pt1 + text_width + (padding div 2), snd pt1 - text_height - padding);
                    img1 = rectangle cv img pt3 pt4 class_colour (- 1);
                    pt5 = (fst pt1 + (padding div 2), snd pt1 - (text_height div 2))
                in (putText cv img1 class_name pt5, None))))"

text \<open>
  The body of the loop over the detections, lines 45 to 66, for one bounding box and its
  mask (\<^verbatim>\<open>None\<close> when the message has no masks). The result is the image after the
  body and the exception raised, if any; what was drawn before an exception stays.
\<close>

definition draw_detection ::
  "cv2 \<Rightarrow> int list list \<Rightarrow> string list option \<Rightarrow> ndarray \<Rightarrow> BoundingBox \<Rightarrow>
   (int list \<times> int list) option \<Rightarrow> ndarray \<times> error option" where
  "draw_detection cv label_colours classes img bounding_box msk =
     (let pt1 = (pyint (x1 bounding_box), pyint (y1 bounding_box));
          pt2 = (pyint (x2 bounding_box), pyint (y2 bounding_box))
      in case LabelColours_getitem label_colours (class_id bounding_box) of
           Inl e \<Rightarrow> (img, Some e)
         | Inr class_colour \<Rightarrow>
             (let class_colour_f = map (\<lambda>f. real_of_int f / 2) class_colour;
                  img1 = rectangle cv img pt1 pt2 class_colour 1
              in case (case msk of
                         None \<Rightarrow> (img1, None)
                       | Some m \<Rightarrow> blend_mask img1 m class_colour_f) of
                   (img2, Some e) \<Rightarrow> (img2, Some e)
                 | (img2, None) \<Rightarrow> draw_label cv classes img2 bounding_box pt1 class_colour))"

text \<open>
  The loop \<^verbatim>\<open>for detection_id in range(n_detections)\<close>, over the bounding boxes paired
  with their masks.
\<close>

fun draw_detections ::
  "cv2 \<Rightarrow> int list list \<Rightarrow> string list option \<Rightarrow> ndarray \<Rightarrow>
   (BoundingBox \<times> (int list \<times> int list) option) list \<Rightarrow> ndarray \<times> error option" where
  "draw_detections cv label_colours classes img [] = (img, None)"
| "draw_detections cv label_colours classes img ((bounding_box, msk) # rest) =
     (case draw_detection cv label_colours classes img bounding_box msk of
        (img1, Some e) \<Rightarrow> (img1, Some e)
      | (img1, None) \<Rightarrow> draw_detections cv label_colours classes img1 rest)"

text \<open>
  Lines 32 to 34: the palette of the call is the default \<^verbatim>\<open>LabelColours()\<close>, with every
  colour reversed when the encoding does not contain \<^verbatim>\<open>rgb\<close>.
\<close>

definition label_colours_for :: "string \<Rightarrow> int list list" where
  "label_colours_for encoding =
     (let label_colours = LabelColours_init None default_colour_list in
      if \<not> str_contains ''rgb'' encoding then map rev label_colours else label_colours)"

text \<open>
  \<^verbatim>\<open>draw_detection_msg_on_image(image, detection_msg, ..., encoding)\<close>. An
  \<^verbatim>\<open>instances\<close> field that is \<^verbatim>\<open>None\<close> or empty is falsy, so it counts as no masks.
  The result is the image buffer after the call and the exception raised, if any.
\<close>

definition draw_detection_msg_on_image ::
  "cv2 \<Rightarrow> ndarray \<Rightarrow> detection_msg \<Rightarrow> string \<Rightarrow> ndarray \<times> error option" where
  "draw_detection_msg_on_image cv img msg encoding =
     (let label_colours = label_colours_for encoding;
          classes = class_labels msg;
          bounding_box_msgs = bounding_boxes msg;
          segmentation_lbl_msgs =
            (case instances msg of None \<Rightarrow> None | Some ms \<Rightarrow> if ms = [] then None else Some ms)
      in case segmentation_lbl_msgs of
           None \<Rightarrow>
             draw_detections cv label_colours classes img
               (map (\<lambda>b. (b, None)) bounding_box_msgs)
         | Some ms \<Rightarrow>
             if length bounding_box_msgs \<noteq> length ms then (img, Some ValueError)
             else draw_detections cv label_colours classes img
                    (zip bounding_box_msgs (map (\<lambda>m. Some (seg_x m, seg_y m)) ms)))"

section \<open>Properties of the palette lookup\<close>

lemma list_getitem_in_range:
  "0 \<le> i \<Longrightarrow> i < int (length xs) \<Longrightarrow> list_getitem xs i = Inr (xs ! nat i)"
  by (simp add: list_getitem_def)

lemma LabelColours_getitem_abs:
  "LabelColours_getitem cs i =
     (if \<bar>i\<bar> \<ge> int (length cs) then
        (if length cs = 0 then Inl ZeroDivisionError
         else list_getitem cs (\<bar>i\<bar> mod int (length cs)))
      else list_getitem cs \<bar>i\<bar>)"
proof -
  have "(if i < 0 then i * (- 1) else i) = \<bar>i\<bar>" by simp
  then show ?thesis
    unfolding LabelColours_getitem_def Let_def by presburger
qed

lemma LabelColours_getitem_nonempty:
  assumes "cs \<noteq> []"
  shows "LabelColours_getitem cs i = Inr (cs ! nat (\<bar>i\<bar> mod int (length cs)))"
proof -
  let ?n = "int (length cs)"
  from assms have n: "0 < ?n" by simp
  have m: "0 \<le> \<bar>i\<bar> mod ?n" "\<bar>i\<bar> mod ?n < ?n"
    using n by simp_all
  have g: "list_getitem cs (\<bar>i\<bar> mod ?n) = Inr (cs ! nat (\<bar>i\<bar> mod ?n))"
    using m by (rule list_getitem_in_range)
  show ?thesis
  proof (cases "\<bar>i\<bar> \<ge> ?n")
    case True
    with assms g show ?thesis
      by (simp only: LabelColours_getitem_abs if_True length_0_conv if_False)
  next
    case False
    then have "\<bar>i\<bar> mod ?n = \<bar>i\<bar>" by simp
    with False g show ?thesis
      by (simp only: LabelColours_getitem_abs if_False)
  qed
qed

lemma LabelColours_getitem_empty: "LabelColours_getitem [] i = Inl ZeroDivisionError"
  by (simp add: LabelColours_getitem_def Let_def)

lemma LabelColours_getitem_neg: "LabelColours_getitem cs (- i) = LabelColours_getitem cs i"
  by (simp only: LabelColours_getitem_abs abs_minus_cancel)

lemma LabelColours_getitem_shift_nonneg:
  assumes "0 \<le> i" "0 \<le> i + k * int (length cs)"
  shows "LabelColours_getitem cs (i + k * int (length cs)) = LabelColours_getitem cs i"
proof (cases "cs = []")
  case True
  then show ?thesis by (simp add: LabelColours_getitem_empty)
next
  case False
  have "\<bar>i + k * int (length cs)\<bar> mod int (length cs) = \<bar>i\<bar> mod int (length cs)"
    using assms by simp
  then show ?thesis
    by (simp only: LabelColours_getitem_nonempty [OF False])
qed

text \<open>
  Claim C2, as amended. For every palette and every integer \<open>i\<close>, the lookup of \<open>i\<close> and
  of \<open>-i\<close> give the same result. The lookup of \<open>i\<close> and of \<open>i + k * length\<close> give the
  same result whenever the two indices lie on the same side of zero (both non-negative
  or both non-positive): the index is folded by its absolute value before the
  remainder is taken, so a shift that crosses zero selects a different entry.
\<close>

theorem LabelColours_getitem_cyclic:
  "LabelColours_getitem cs i = LabelColours_getitem cs (- i) \<and>
   ((0 \<le> i \<and> 0 \<le> i + k * int (length cs)) \<or> (i \<le> 0 \<and> i + k * int (length cs) \<le> 0) \<longrightarrow>
      LabelColours_getitem cs i = LabelColours_getitem cs (i + k * int (length cs)))"
proof (intro conjI impI)
  show "LabelColours_getitem cs i = LabelColours_getitem cs (- i)"
    by (simp only: LabelColours_getitem_neg)
next
  assume "(0 \<le> i \<and> 0 \<le> i + k * int (length cs)) \<or> (i \<le> 0 \<and> i + k * int (length cs) \<le> 0)"
  then show "LabelColours_getitem cs i = LabelColours_getitem cs (i + k * int (length cs))"
  proof
    assume "0 \<le> i \<and> 0 \<le> i + k * int (length cs)"
    then show ?thesis using LabelColours_getitem_shift_nonneg [of i k cs] by simp
  next
    assume "i \<le> 0 \<and> i + k * int (length cs) \<le> 0"
    then have "0 \<le> - i" "0 \<le> - i + (- k) * int (length cs)" by simp_all
    then have "LabelColours_getitem cs (- i + (- k) * int (length cs)) = LabelColours_getitem cs (- i)"
      by (rule LabelColours_getitem_shift_nonneg)
    moreover have "- i + (- k) * int (length cs) = - (i + k * int (length cs))" by simp
    ultimately show ?thesis by (simp only: LabelColours_getitem_neg)
  qed
qed

text \<open>
  With the 22 default colours, index 25 and index \<open>25 - 22 = 3\<close> are both non-negative
  and select the same colour.
\<close>

theorem LabelColours_getitem_cyclic_witness:
  "(0 \<le> (25::int) \<and> 0 \<le> 25 + (- 1) * int (length default_colour_list)) \<and>
   LabelColours_getitem default_colour_list 25 = LabelColours_getitem default_colour_list (- 25) \<and>
   LabelColours_getitem default_colour_list 25 =
     LabelColours_getitem default_colour_list (25 + (- 1) * int (length default_colour_list)) \<and>
   LabelColours_getitem default_colour_list 25 = Inr [0, 130, 200]"
  using LabelColours_getitem_cyclic [of default_colour_list 25 "- 1"]
  by (simp add: LabelColours_getitem_def list_getitem_def default_colour_list_def)

text \<open>
  The claim as stated fails for a shift across zero: with the default colours, index 1
  selects entry 1, and index \<open>1 - 22 = -21\<close> selects entry 21.
\<close>

theorem LabelColours_getitem_shift_counterexample:
  "LabelColours_getitem default_colour_list 1
     \<noteq> LabelColours_getitem default_colour_list (1 + (- 1) * int (length default_colour_list))"
  by (simp add: LabelColours_getitem_def list_getitem_def default_colour_list_def)

text \<open>
  Claim C8, as amended. On a palette that is not empty the lookup never fails: for every
  integer \<open>i\<close>, negative ones included, it returns the entry at position
  \<open>abs i mod length\<close>, and that position is inside the palette.
\<close>

theorem LabelColours_getitem_total:
  "cs \<noteq> [] \<Longrightarrow>
   LabelColours_getitem cs i = Inr (cs ! nat (\<bar>i\<bar> mod int (length cs))) \<and>
   nat (\<bar>i\<bar> mod int (length cs)) < length cs"
  by (simp add: LabelColours_getitem_nonempty nat_less_iff)

theorem LabelColours_getitem_total_witness:
  "default_colour_list \<noteq> [] \<and>
   LabelColours_getitem default_colour_list (- 23) = Inr [60, 180, 75] \<and>
   nat (\<bar>- 23\<bar> mod int (length default_colour_list)) = 1"
  using LabelColours_getitem_total [of default_colour_list "- 23"]
  by (simp add: default_colour_list_def)

text \<open>On the empty palette the remainder is taken by zero and the lookup raises.\<close>

theorem LabelColours_getitem_empty_counterexample:
  "LabelColours_getitem ([] :: int list list) 0 = Inl ZeroDivisionError"
  by (simp add: LabelColours_getitem_def)

section \<open>Properties of MarkerPublisher\<close>

lemma py_max_gt_one:
  assumes "py_max (v # vs) = Inr m"
  shows "(1 < m) = (\<exists>c\<in>set (v # vs). 1 < c)"
proof -
  from assms have "m = Max (set (v # vs))"
    using Max.set_eq_fold [of v vs] by simp
  moreover have "(1 < Max (set (v # vs))) = (\<exists>c\<in>set (v # vs). 1 < c)"
    by (rule Max_gr_iff) simp_all
  ultimately show ?thesis by simp
qed

text \<open>
  Claim C7, as amended. At construction, for a supplied sub-palette whose first colour
  has at least one component: if any component of the first colour exceeds 1, every
  component of every colour of the palette is divided by 255; otherwise the palette is
  stored unchanged. The colours after the first take no part in the decision.
\<close>

theorem MarkerPublisher_init_normalises:
  "MarkerPublisher_init fid (Some ((v # vs) # rest)) =
     Inr \<lparr>pub_frame_id = fid,
          colours = (if \<exists>c\<in>set (v # vs). 1 < c
                     then map (map (\<lambda>c2. c2 / 255)) ((v # vs) # rest)
                     else (v # vs) # rest),
          last_object_id = - 1, published = [], logged = []\<rparr>"
proof -
  have g: "list_getitem ((v # vs) # rest) 0 = Inr (v # vs)"
    by (simp add: list_getitem_def)
  obtain m where m: "py_max (v # vs) = Inr m" by simp
  have "(1 < m) = (\<exists>c\<in>set (v # vs). 1 < c)"
    using m by (rule py_max_gt_one)
  then show ?thesis
    using g m by (simp add: MarkerPublisher_init_def)
qed

text \<open>A palette given in 0 to 255 is rescaled; one given in 0 to 1 is kept.\<close>

theorem MarkerPublisher_init_normalises_witness:
  "MarkerPublisher_init ''map'' (Some [[255, 0, 0], [0, 255, 0]]) =
     Inr \<lparr>pub_frame_id = ''map'', colours = [[1, 0, 0], [0, 1, 0]], last_object_id = - 1,
          published = [], logged = []\<rparr> \<and>
   MarkerPublisher_init ''map'' (Some [[1, 0.5, 0], [0, 1, 0]]) =
     Inr \<lparr>pub_frame_id = ''map'', colours = [[1, 0.5, 0], [0, 1, 0]], last_object_id = - 1,
          published = [], logged = []\<rparr>"
  using MarkerPublisher_init_normalises [of "''map''" 255 "[0, 0]" "[[0, 255, 0]]"]
    MarkerPublisher_init_normalises [of "''map''" 1 "[0.5, 0]" "[[0, 1, 0]]"]
  by simp

text \<open>
  The claim as stated fails when only a later colour has a component above 1: the
  palette is stored unchanged.
\<close>

theorem MarkerPublisher_init_later_colour_counterexample:
  "MarkerPublisher_init ''map'' (Some [[0, 0, 0], [255, 255, 255]]) =
     Inr \<lparr>pub_frame_id = ''map'', colours = [[0, 0, 0], [255, 255, 255]], last_object_id = - 1,
          published = [], logged = []\<rparr>"
  by (simp add: MarkerPublisher_init_def list_getitem_def)

subsection \<open>One point, and the loop over the points\<close>

lemma visualise_point_cases:
  assumes "visualise_point s h d p = (s', r)"
  shows "colours s' = colours s \<and> pub_frame_id s' = pub_frame_id s \<and> logged s' = logged s \<and>
         last_object_id s' = last_object_id s + 1 \<and>
         (case r of
            Some e \<Rightarrow> published s' = published s
          | None \<Rightarrow> (\<exists>m. published s' = published s @ [m] \<and>
                         marker_id m = last_object_id s + 1 \<and> action m = ADD))"
  using assms
  by (auto simp add: visualise_point_def get_object_id_def publish_def Let_def
      split: sum.splits)

lemma visualise_point_ok:
  assumes "point_ok (colours s) p"
  shows "snd (visualise_point s h d p) = None"
proof -
  from assms obtain colour where
    c: "list_subscript (colours s) (if length p = 4 then p ! 3 else PyInt 0) = Inr colour"
    and l: "3 \<le> length colour"
    by (auto simp add: point_ok_def split: sum.splits)
  from l have "list_getitem colour 0 = Inr (colour ! 0)" "list_getitem colour 1 = Inr (colour ! 1)"
    "list_getitem colour 2 = Inr (colour ! 2)"
    by (auto simp add: list_getitem_def)
  with c show ?thesis
    by (simp add: visualise_point_def get_object_id_def Let_def)
qed

lemma visualise_point_bad_index:
  assumes "list_subscript (colours s) (if length p = 4 then p ! 3 else PyInt 0) = Inl e"
  shows "visualise_point s h d p = (s\<lparr>last_object_id := last_object_id s + 1\<rparr>, Some e)"
  using assms by (simp add: visualise_point_def get_object_id_def Let_def)


lemma visualise_loop_append:
  "visualise_loop s h d (pre @ post) =
     (case visualise_loop s h d pre of
        (s1, Some e) \<Rightarrow> (s1, Some e)
      | (s1, None) \<Rightarrow> visualise_loop s1 h d post)"
  by (induction pre arbitrary: s) (auto split: prod.splits option.splits)

lemma visualise_loop_invariant:
  "visualise_loop s h d ps = (s', r) \<Longrightarrow>
   colours s' = colours s \<and> pub_frame_id s' = pub_frame_id s \<and>
   (\<exists>new. published s' = published s @ new \<and>
          map marker_id new = map (\<lambda>k. last_object_id s + 1 + int k) [0..<length new] \<and>
          map action new = replicate (length new) ADD \<and>
          (r = None \<longrightarrow> last_object_id s' = last_object_id s + int (length new)))"
proof (induction ps arbitrary: s)
  case Nil
  then show ?case by auto
next
  case (Cons p ps)
  show ?case
  proof (cases "length p \<noteq> 3 \<and> length p \<noteq> 4")
    case True
    with Cons.prems have "visualise_loop (logerr s p) h d ps = (s', r)" by simp
    from Cons.IH [OF this] show ?thesis by (simp add: logerr_def)
  next
    case False
    obtain s1 r1 where vp: "visualise_point s h d p = (s1, r1)" by (cases "visualise_point s h d p")
    note c = visualise_point_cases [OF vp]
    show ?thesis
    proof (cases r1)
      case (Some e)
      with False vp Cons.prems have "s' = s1" "r = Some e" by auto
      with c Some show ?thesis by auto
    next
      case None
      with False vp Cons.prems have "visualise_loop s1 h d ps = (s', r)" by auto
      from Cons.IH [OF this] obtain new where
        n: "colours s' = colours s1" "pub_frame_id s' = pub_frame_id s1"
        "published s' = published s1 @ new"
        "map marker_id new = map (\<lambda>k. last_object_id s1 + 1 + int k) [0..<length new]"
        "map action new = replicate (length new) ADD"
        "r = None \<longrightarrow> last_object_id s' = last_object_id s1 + int (length new)"
        by blast
      from c None obtain m where
        m: "published s1 = published s @ [m]" "marker_id m = last_object_id s + 1" "action m = ADD"
        "last_object_id s1 = last_object_id s + 1" "colours s1 = colours s"
        "pub_frame_id s1 = pub_frame_id s"
        by auto
      have ids: "map marker_id (m # new) =
                  map (\<lambda>k. last_object_id s + 1 + int k) [0..<length (m # new)]"
      proof -
        have "[0..<length (m # new)] = 0 # map Suc [0..<length new]"
          by (simp add: upt_conv_Cons map_Suc_upt del: upt_Suc)
        then show ?thesis using n(4) m(2) m(4) by (simp add: comp_def add.assoc)
      qed
      show ?thesis
        apply (intro conjI)
          apply (simp add: n m)
         apply (simp add: n m)
        apply (rule exI [of _ "m # new"])
        using ids n m by auto
    qed
  qed
qed

lemma visualise_loop_all_ok:
  "\<forall>p\<in>set ps. point_ok (colours s) p \<Longrightarrow>
   snd (visualise_loop s h d ps) = None \<and>
   length (published (fst (visualise_loop s h d ps))) = length (published s) + length ps"
proof (induction ps arbitrary: s)
  case Nil
  then show ?case by simp
next
  case (Cons p ps)
  then have ok: "point_ok (colours s) p" by simp
  then have ar: "\<not> (length p \<noteq> 3 \<and> length p \<noteq> 4)" by (auto simp add: point_ok_def)
  obtain s1 r1 where vp: "visualise_point s h d p = (s1, r1)" by (cases "visualise_point s h d p")
  from visualise_point_ok [OF ok, of h d] vp have r1: "r1 = None" by simp
  note c = visualise_point_cases [OF vp]
  from c r1 have cs: "colours s1 = colours s" and len: "length (published s1) = length (published s) + 1"
    by auto
  from Cons.prems cs have "\<forall>p\<in>set ps. point_ok (colours s1) p" by simp
  then have ih: "snd (visualise_loop s1 h d ps) = None \<and>
      length (published (fst (visualise_loop s1 h d ps))) = length (published s1) + length ps"
    by (rule Cons.IH)
  have "visualise_loop s h d (p # ps) = visualise_loop s1 h d ps"
    using ar vp r1 by auto
  with ih len show ?case by simp
qed




lemma visualise_points_loop:
  "visualise_points s ps hdr c d now =
     visualise_loop (if c then clear_markers s else s)
       (case hdr of None \<Rightarrow> Header_default\<lparr>stamp := now\<rparr> | Some h \<Rightarrow> h) d ps"
  by (simp add: visualise_points_def Let_def)

lemma clear_markers_fields:
  "colours (clear_markers s) = colours s" "logged (clear_markers s) = logged s"
  "last_object_id (clear_markers s) = - 1"
  "published (clear_markers s) = published s @ [clear_marker s]"
  by (simp_all add: clear_markers_def publish_def)



lemma logged_erased_fields:
  assumes "s\<lparr>logged := []\<rparr> = t\<lparr>logged := []\<rparr>"
  shows "colours s = colours t" "published s = published t" "last_object_id s = last_object_id t"
    "pub_frame_id s = pub_frame_id t" "MarkerPublisher.more s = MarkerPublisher.more t"
proof -
  from assms have "colours (s\<lparr>logged := []\<rparr>) = colours (t\<lparr>logged := []\<rparr>)" by simp
  then show "colours s = colours t" by simp
  from assms have "published (s\<lparr>logged := []\<rparr>) = published (t\<lparr>logged := []\<rparr>)" by simp
  then show "published s = published t" by simp
  from assms have "last_object_id (s\<lparr>logged := []\<rparr>) = last_object_id (t\<lparr>logged := []\<rparr>)" by simp
  then show "last_object_id s = last_object_id t" by simp
  from assms have "pub_frame_id (s\<lparr>logged := []\<rparr>) = pub_frame_id (t\<lparr>logged := []\<rparr>)" by simp
  then show "pub_frame_id s = pub_frame_id t" by simp
  from assms have "MarkerPublisher.more (s\<lparr>logged := []\<rparr>) = MarkerPublisher.more (t\<lparr>logged := []\<rparr>)" by simp
  then show "MarkerPublisher.more s = MarkerPublisher.more t" by simp
qed

lemma logged_erased_eqI:
  assumes "colours s = colours t" "published s = published t" "last_object_id s = last_object_id t"
    "pub_frame_id s = pub_frame_id t" "MarkerPublisher.more s = MarkerPublisher.more t"
  shows "s\<lparr>logged := []\<rparr> = t\<lparr>logged := []\<rparr>"
  using assms by (cases s, cases t) simp

lemma visualise_point_logged_cong:
  assumes "s\<lparr>logged := []\<rparr> = t\<lparr>logged := []\<rparr>"
  shows "snd (visualise_point s h d p) = snd (visualise_point t h d p) \<and>
         (fst (visualise_point s h d p))\<lparr>logged := []\<rparr> = (fst (visualise_point t h d p))\<lparr>logged := []\<rparr>"
proof -
  note f = logged_erased_fields [OF assms]
  show ?thesis
    by (auto simp add: visualise_point_def get_object_id_def publish_def Let_def f
        intro!: logged_erased_eqI split: sum.splits)
qed

lemma visualise_loop_logged_cong:
  assumes "s\<lparr>logged := []\<rparr> = t\<lparr>logged := []\<rparr>"
  shows "snd (visualise_loop s h d ps) = snd (visualise_loop t h d ps) \<and>
         (fst (visualise_loop s h d ps))\<lparr>logged := []\<rparr> = (fst (visualise_loop t h d ps))\<lparr>logged := []\<rparr>"
  using assms
proof (induction ps arbitrary: s t)
  case Nil
  then show ?case by simp
next
  case (Cons p ps)
  show ?case
  proof (cases "length p \<noteq> 3 \<and> length p \<noteq> 4")
    case True
    have "(logerr s p)\<lparr>logged := []\<rparr> = (logerr t p)\<lparr>logged := []\<rparr>"
      using Cons.prems by (simp add: logerr_def)
    from Cons.IH [OF this] True show ?thesis by simp
  next
    case False
    obtain s1 r1 where vs: "visualise_point s h d p = (s1, r1)" by (cases "visualise_point s h d p")
    obtain t1 q1 where vt: "visualise_point t h d p = (t1, q1)" by (cases "visualise_point t h d p")
    from visualise_point_logged_cong [OF Cons.prems, of h d p] vs vt
    have e: "r1 = q1" "s1\<lparr>logged := []\<rparr> = t1\<lparr>logged := []\<rparr>" by simp_all
    show ?thesis
    proof (cases r1)
      case None
      with False vs vt e Cons.IH [OF e(2)] show ?thesis by auto
    next
      case (Some err)
      with False vs vt e show ?thesis by auto
    qed
  qed
qed

lemma visualise_loop_filter:
  "snd (visualise_loop s h d ps) =
     snd (visualise_loop s h d (filter (\<lambda>p. length p = 3 \<or> length p = 4) ps)) \<and>
   (fst (visualise_loop s h d ps))\<lparr>logged := []\<rparr> =
     (fst (visualise_loop s h d (filter (\<lambda>p. length p = 3 \<or> length p = 4) ps)))\<lparr>logged := []\<rparr>"
proof (induction ps arbitrary: s)
  case Nil
  show ?case by simp
next
  case (Cons p ps)
  let ?f = "filter (\<lambda>p. length p = 3 \<or> length p = 4)"
  show ?case
  proof (cases "length p \<noteq> 3 \<and> length p \<noteq> 4")
    case True
    have "(logerr s p)\<lparr>logged := []\<rparr> = s\<lparr>logged := []\<rparr>" by (simp add: logerr_def)
    from visualise_loop_logged_cong [OF this, of h d ps] Cons.IH [of s] True
    show ?thesis by simp
  next
    case False
    obtain s1 r1 where vs: "visualise_point s h d p = (s1, r1)" by (cases "visualise_point s h d p")
    show ?thesis
    proof (cases r1)
      case None
      with False vs Cons.IH [of s1] show ?thesis by auto
    next
      case (Some err)
      with False vs show ?thesis by auto
    qed
  qed
qed

lemma visualise_loop_logged:
  "snd (visualise_loop s h d ps) = None \<Longrightarrow>
   logged (fst (visualise_loop s h d ps)) =
     logged s @ filter (\<lambda>p. length p \<noteq> 3 \<and> length p \<noteq> 4) ps"
proof (induction ps arbitrary: s)
  case Nil
  show ?case by simp
next
  case (Cons p ps)
  show ?case
  proof (cases "length p \<noteq> 3 \<and> length p \<noteq> 4")
    case True
    with Cons.prems have "snd (visualise_loop (logerr s p) h d ps) = None" by simp
    from Cons.IH [OF this] True show ?thesis by (simp add: logerr_def)
  next
    case False
    obtain s1 r1 where vs: "visualise_point s h d p = (s1, r1)" by (cases "visualise_point s h d p")
    from visualise_point_cases [OF vs] have l: "logged s1 = logged s" by simp
    show ?thesis
    proof (cases r1)
      case None
      with False vs Cons.prems have "snd (visualise_loop s1 h d ps) = None" by auto
      from Cons.IH [OF this] None False vs l show ?thesis by auto
    next
      case (Some err)
      with False vs Cons.prems show ?thesis by auto
    qed
  qed
qed

lemma visualise_loop_no_error:
  "\<forall>p\<in>set ps. (length p = 3 \<or> length p = 4) \<longrightarrow> point_ok (colours s) p \<Longrightarrow>
   snd (visualise_loop s h d ps) = None"
proof -
  assume a: "\<forall>p\<in>set ps. (length p = 3 \<or> length p = 4) \<longrightarrow> point_ok (colours s) p"
  let ?f = "filter (\<lambda>p. length p = 3 \<or> length p = 4) ps"
  from a have "\<forall>p\<in>set ?f. point_ok (colours s) p" by auto
  from visualise_loop_all_ok [OF this, of h d] visualise_loop_filter [of s h d ps]
  show ?thesis by simp
qed

lemma visualise_loop_bad_index:
  assumes "length p = 4" and "list_subscript (colours s) (p ! 3) = Inl e"
  shows "visualise_loop s h d (p # post) = (s\<lparr>last_object_id := last_object_id s + 1\<rparr>, Some e)"
  using assms visualise_point_bad_index [of s p e h d] by simp

lemma visualise_loop_abort:
  assumes "length p = 4" and "list_subscript (colours s) (p ! 3) = Inl e"
  shows "snd (visualise_loop s h d (pre @ p # post)) \<noteq> None \<and>
         (snd (visualise_loop s h d pre) = None \<longrightarrow> snd (visualise_loop s h d (pre @ p # post)) = Some e) \<and>
         published (fst (visualise_loop s h d (pre @ p # post))) = published (fst (visualise_loop s h d pre)) \<and>
         visualise_loop s h d (pre @ p # post) = visualise_loop s h d (pre @ [p])"
proof -
  obtain s1 r1 where l: "visualise_loop s h d pre = (s1, r1)" by (cases "visualise_loop s h d pre")
  from visualise_loop_invariant [OF l] have c: "colours s1 = colours s" by simp
  with assms have b: "list_subscript (colours s1) (p ! 3) = Inl e" by simp
  note bi = visualise_loop_bad_index [OF assms(1) b]
  show ?thesis
  proof (cases r1)
    case None
    with l bi [of h d post] bi [of h d "[]"] show ?thesis
      by (simp add: visualise_loop_append)
  next
    case (Some err)
    with l show ?thesis by (simp add: visualise_loop_append)
  qed
qed

subsection \<open>Claims about the marker publisher\<close>

text \<open>
  Claim C1, as amended. In \<^verbatim>\<open>visualise_points\<close> a point entry whose number of components
  is neither 3 nor 4 is a per-item error: it is logged and skipped, the rest of the batch
  proceeds and the call does not fail on its account. The call has the same outcome,
  publishes the same markers and leaves the same id counter as the call on the list
  without those entries; when it returns, exactly those entries have been logged; and
  it returns whenever every entry of 3 or 4 components selects a colour. An entry of 4
  components is not malformed in this sense, whatever its fourth component is.
\<close>

theorem visualise_points_skips_wrong_arity:
  "(let r = visualise_points s ps hdr c d now;
        r' = visualise_points s (filter (\<lambda>p. length p = 3 \<or> length p = 4) ps) hdr c d now
    in snd r = snd r' \<and> published (fst r) = published (fst r') \<and>
       last_object_id (fst r) = last_object_id (fst r') \<and>
       (snd r = None \<longrightarrow>
          logged (fst r) = logged s @ filter (\<lambda>p. length p \<noteq> 3 \<and> length p \<noteq> 4) ps) \<and>
       ((\<forall>p\<in>set ps. (length p = 3 \<or> length p = 4) \<longrightarrow> point_ok (colours s) p) \<longrightarrow>
          snd r = None))"
proof -
  let ?s1 = "if c then clear_markers s else s"
  let ?h = "case hdr of None \<Rightarrow> Header_default\<lparr>stamp := now\<rparr> | Some h \<Rightarrow> h"
  let ?f = "filter (\<lambda>p. length p = 3 \<or> length p = 4) ps"
  have cl: "colours ?s1 = colours s" "logged ?s1 = logged s"
    by (simp_all add: clear_markers_fields)
  from visualise_loop_filter [of ?s1 ?h d ps]
  have f1: "snd (visualise_loop ?s1 ?h d ps) = snd (visualise_loop ?s1 ?h d ?f)"
    and f2: "(fst (visualise_loop ?s1 ?h d ps))\<lparr>logged := []\<rparr> =
             (fst (visualise_loop ?s1 ?h d ?f))\<lparr>logged := []\<rparr>"
    by simp_all
  note e = logged_erased_fields [OF f2]
  have lg: "snd (visualise_loop ?s1 ?h d ps) = None \<longrightarrow>
            logged (fst (visualise_loop ?s1 ?h d ps)) =
              logged s @ filter (\<lambda>p. length p \<noteq> 3 \<and> length p \<noteq> 4) ps"
    using visualise_loop_logged [of ?s1 ?h d ps] cl by simp
  have ne: "(\<forall>p\<in>set ps. (length p = 3 \<or> length p = 4) \<longrightarrow> point_ok (colours s) p) \<longrightarrow>
            snd (visualise_loop ?s1 ?h d ps) = None"
    using visualise_loop_no_error [of ps ?s1 ?h d] cl by simp
  show ?thesis
    unfolding visualise_points_loop Let_def
    using f1 e(2) e(3) lg ne by blast
qed

text \<open>
  On the points (1,2,3), (4,5), (7,8,9,0) the second entry is logged and skipped, the
  call returns, and after the delete-all marker two markers are published, with ids 0
  and 1.
\<close>

theorem visualise_points_skips_wrong_arity_witness:
  "point_ok [[1, 1, 1]] [PyInt 1, PyInt 2, PyInt 3] \<and>
   length [PyInt 4, PyInt 5] = 2 \<and>
   point_ok [[1, 1, 1]] [PyInt 7, PyInt 8, PyInt 9, PyInt 0] \<and>
   snd (visualise_points
          \<lparr>pub_frame_id = ''map'', colours = [[1, 1, 1]], last_object_id = - 1,
           published = [], logged = []\<rparr>
          [[PyInt 1, PyInt 2, PyInt 3], [PyInt 4, PyInt 5], [PyInt 7, PyInt 8, PyInt 9, PyInt 0]]
          None True None 0) = None \<and>
   logged (fst (visualise_points
          \<lparr>pub_frame_id = ''map'', colours = [[1, 1, 1]], last_object_id = - 1,
           published = [], logged = []\<rparr>
          [[PyInt 1, PyInt 2, PyInt 3], [PyInt 4, PyInt 5], [PyInt 7, PyInt 8, PyInt 9, PyInt 0]]
          None True None 0)) = [[PyInt 4, PyInt 5]] \<and>
   map marker_id (published (fst (visualise_points
          \<lparr>pub_frame_id = ''map'', colours = [[1, 1, 1]], last_object_id = - 1,
           published = [], logged = []\<rparr>
          [[PyInt 1, PyInt 2, PyInt 3], [PyInt 4, PyInt 5], [PyInt 7, PyInt 8, PyInt 9, PyInt 0]]
          None True None 0))) = [0, 0, 1] \<and>
   map action (published (fst (visualise_points
          \<lparr>pub_frame_id = ''map'', colours = [[1, 1, 1]], last_object_id = - 1,
           published = [], logged = []\<rparr>
          [[PyInt 1, PyInt 2, PyInt 3], [PyInt 4, PyInt 5], [PyInt 7, PyInt 8, PyInt 9, PyInt 0]]
          None True None 0))) = [DELETEALL, ADD, ADD]"
  using visualise_points_skips_wrong_arity
    [of "\<lparr>pub_frame_id = ''map'', colours = [[1, 1, 1]], last_object_id = - 1,
           published = [], logged = []\<rparr>"
        "[[PyInt 1, PyInt 2, PyInt 3], [PyInt 4, PyInt 5], [PyInt 7, PyInt 8, PyInt 9, PyInt 0]]"
        None True None 0]
  by (simp add: visualise_points_def visualise_point_def get_object_id_def clear_markers_def
      clear_marker_def publish_def logerr_def list_getitem_def Marker_default_def Let_def
      point_ok_def)

text \<open>
  The claim as stated fails on its own example: (4,5,6,"bad") has 4 components, so it is
  not skipped and nothing is logged; it takes id 1, its colour lookup raises TypeError,
  the call ends there, and only the marker with id 0 has been published after the
  delete-all marker.
\<close>

theorem visualise_points_bad_example_counterexample:
  "snd (visualise_points
          \<lparr>pub_frame_id = ''map'', colours = [[1, 1, 1]], last_object_id = - 1,
           published = [], logged = []\<rparr>
          [[PyInt 1, PyInt 2, PyInt 3], [PyInt 4, PyInt 5, PyInt 6, PyStr ''bad''],
           [PyInt 7, PyInt 8, PyInt 9, PyInt 0]] None True None 0) = Some TypeError \<and>
   map marker_id (published (fst (visualise_points
          \<lparr>pub_frame_id = ''map'', colours = [[1, 1, 1]], last_object_id = - 1,
           published = [], logged = []\<rparr>
          [[PyInt 1, PyInt 2, PyInt 3], [PyInt 4, PyInt 5, PyInt 6, PyStr ''bad''],
           [PyInt 7, PyInt 8, PyInt 9, PyInt 0]] None True None 0))) = [0, 0] \<and>
   map action (published (fst (visualise_points
          \<lparr>pub_frame_id = ''map'', colours = [[1, 1, 1]], last_object_id = - 1,
           published = [], logged = []\<rparr>
          [[PyInt 1, PyInt 2, PyInt 3], [PyInt 4, PyInt 5, PyInt 6, PyStr ''bad''],
           [PyInt 7, PyInt 8, PyInt 9, PyInt 0]] None True None 0))) = [DELETEALL, ADD] \<and>
   logged (fst (visualise_points
          \<lparr>pub_frame_id = ''map'', colours = [[1, 1, 1]], last_object_id = - 1,
           published = [], logged = []\<rparr>
          [[PyInt 1, PyInt 2, PyInt 3], [PyInt 4, PyInt 5, PyInt 6, PyStr ''bad''],
           [PyInt 7, PyInt 8, PyInt 9, PyInt 0]] None True None 0)) = [] \<and>
   last_object_id (fst (visualise_points
          \<lparr>pub_frame_id = ''map'', colours = [[1, 1, 1]], last_object_id = - 1,
           published = [], logged = []\<rparr>
          [[PyInt 1, PyInt 2, PyInt 3], [PyInt 4, PyInt 5, PyInt 6, PyStr ''bad''],
           [PyInt 7, PyInt 8, PyInt 9, PyInt 0]] None True None 0)) = 1"
  by (simp add: visualise_points_def visualise_point_def get_object_id_def clear_markers_def
      clear_marker_def publish_def logerr_def list_getitem_def Marker_default_def Let_def)



text \<open>
  Claim C9. The sub-palette is subscripted as a plain list: an integer at or beyond its
  length raises IndexError and a value that is not an integer raises TypeError. For a
  point of 4 components whose fourth component is not a valid subscript of the
  sub-palette, the call raises that exception: the points after it are not processed
  (the call is the same as if the list ended at that point), the point itself publishes
  nothing, and the markers of the points before it stay published.
\<close>

theorem visualise_points_bad_colour_index_aborts:
  "(int (length cs) \<le> i \<longrightarrow> list_subscript cs (PyInt i) = Inl IndexError) \<and>
   list_subscript cs (PyFloat x) = Inl TypeError \<and>
   list_subscript cs (PyStr t) = Inl TypeError \<and>
   list_subscript cs PyNone = Inl TypeError \<and>
   (length p = 4 \<and> list_subscript (colours s) (p ! 3) = Inl e \<longrightarrow>
    (let r = visualise_points s (pre @ p # post) hdr c d now;
         r0 = visualise_points s pre hdr c d now
     in snd r \<noteq> None \<and> (snd r0 = None \<longrightarrow> snd r = Some e) \<and>
        published (fst r) = published (fst r0) \<and>
        r = visualise_points s (pre @ [p]) hdr c d now))"
proof (intro conjI impI)
  show "list_subscript cs (PyInt i) = Inl IndexError" if "int (length cs) \<le> i"
    using that by (simp add: list_getitem_def)
next
  assume a: "length p = 4 \<and> list_subscript (colours s) (p ! 3) = Inl e"
  let ?s1 = "if c then clear_markers s else s"
  from a have "list_subscript (colours ?s1) (p ! 3) = Inl e"
    by (simp add: clear_markers_fields)
  with a have "snd (visualise_loop ?s1 h d (pre @ p # post)) \<noteq> None \<and>
         (snd (visualise_loop ?s1 h d pre) = None \<longrightarrow> snd (visualise_loop ?s1 h d (pre @ p # post)) = Some e) \<and>
         published (fst (visualise_loop ?s1 h d (pre @ p # post))) = published (fst (visualise_loop ?s1 h d pre)) \<and>
         visualise_loop ?s1 h d (pre @ p # post) = visualise_loop ?s1 h d (pre @ [p])" for h
    using visualise_loop_abort [of p ?s1 e h d pre post] by blast
  then show "let r = visualise_points s (pre @ p # post) hdr c d now;
                 r0 = visualise_points s pre hdr c d now
             in snd r \<noteq> None \<and> (snd r0 = None \<longrightarrow> snd r = Some e) \<and>
                published (fst r) = published (fst r0) \<and>
                r = visualise_points s (pre @ [p]) hdr c d now"
    unfolding visualise_points_loop Let_def by blast
qed simp_all

theorem visualise_points_bad_colour_index_aborts_witness:
  "(int (length [[1, 1, 1 :: real]]) \<le> 1) \<and>
   length [PyInt 4, PyInt 5, PyInt 6, PyInt 1] = 4 \<and>
   list_subscript [[1, 1, 1 :: real]] (PyInt 1) = Inl IndexError \<and>
   visualise_points
     \<lparr>pub_frame_id = ''map'', colours = [[1, 1, 1]], last_object_id = - 1,
      published = [], logged = []\<rparr>
     ([[PyInt 1, PyInt 2, PyInt 3]] @ [PyInt 4, PyInt 5, PyInt 6, PyInt 1] # [[PyInt 7, PyInt 8, PyInt 9, PyInt 0]])
     None False None 0 =
   (\<lparr>pub_frame_id = ''map'', colours = [[1, 1, 1]], last_object_id = 1,
     published = published (fst (visualise_points
        \<lparr>pub_frame_id = ''map'', colours = [[1, 1, 1]], last_object_id = - 1,
         published = [], logged = []\<rparr> [[PyInt 1, PyInt 2, PyInt 3]] None False None 0)),
     logged = []\<rparr>, Some IndexError) \<and>
   map marker_id (published (fst (visualise_points
        \<lparr>pub_frame_id = ''map'', colours = [[1, 1, 1]], last_object_id = - 1,
         published = [], logged = []\<rparr> [[PyInt 1, PyInt 2, PyInt 3]] None False None 0))) = [0]"
  using visualise_points_bad_colour_index_aborts
    [of "[[1, 1, 1]]" 1 0 "[]" "[PyInt 4, PyInt 5, PyInt 6, PyInt 1]"
        "\<lparr>pub_frame_id = ''map'', colours = [[1, 1, 1]], last_object_id = - 1,
           published = [], logged = []\<rparr>" IndexError
        "[[PyInt 1, PyInt 2, PyInt 3]]" "[[PyInt 7, PyInt 8, PyInt 9, PyInt 0]]" None False None 0]
  by (simp add: visualise_points_def visualise_point_def get_object_id_def clear_markers_def
      clear_marker_def publish_def logerr_def list_getitem_def Marker_default_def Let_def)

section \<open>Properties of PoseArrayPublisher\<close>

lemma build_poses_fail:
  "\<exists>pts\<in>set xyz. \<exists>e. Point_new pts = Inl e \<Longrightarrow> \<exists>e. build_poses Point_new acc xyz = Inl e"
proof (induction xyz arbitrary: acc)
  case Nil
  then show ?case by simp
next
  case (Cons pts xyz)
  show ?case
  proof (cases "Point_new pts")
    case (Inl e)
    then show ?thesis by simp
  next
    case (Inr p)
    with Cons.prems have "\<exists>pts\<in>set xyz. \<exists>e. Point_new pts = Inl e" by auto
    from Cons.IH [OF this] Inr show ?thesis by simp
  qed
qed

lemma build_poses_fail_with:
  "build_poses Point_new acc xyz = Inl e \<Longrightarrow> \<exists>pts\<in>set xyz. Point_new pts = Inl e"
  by (induction xyz arbitrary: acc) (auto split: sum.splits)

lemma build_poses_ok:
  "\<forall>pts\<in>set xyz. \<exists>p. Point_new pts = Inr p \<Longrightarrow>
   \<exists>ps. build_poses Point_new acc xyz = Inr (acc @ ps) \<and> length ps = length xyz \<and>
        (\<forall>k<length xyz. Point_new (xyz ! k) = Inr (position (ps ! k)) \<and>
                          orientation (ps ! k) = (0, 0, 0, 1))"
proof (induction xyz arbitrary: acc)
  case Nil
  then show ?case by simp
next
  case (Cons pts xyz)
  then obtain p where p: "Point_new pts = Inr p" by auto
  from Cons.prems have "\<forall>pts\<in>set xyz. \<exists>p. Point_new pts = Inr p" by simp
  from Cons.IH [OF this, of "acc @ [\<lparr>position = p, orientation = (0, 0, 0, 1)\<rparr>]"]
  obtain ps where ps: "build_poses Point_new (acc @ [\<lparr>position = p, orientation = (0, 0, 0, 1)\<rparr>]) xyz
      = Inr ((acc @ [\<lparr>position = p, orientation = (0, 0, 0, 1)\<rparr>]) @ ps)"
    "length ps = length xyz"
    "\<forall>k<length xyz. Point_new (xyz ! k) = Inr (position (ps ! k)) \<and> orientation (ps ! k) = (0, 0, 0, 1)"
    by blast
  show ?case
  proof (intro exI [of _ "\<lparr>position = p, orientation = (0, 0, 0, 1)\<rparr> # ps"] conjI allI impI)
    show "build_poses Point_new acc (pts # xyz) = Inr (acc @ \<lparr>position = p, orientation = (0, 0, 0, 1)\<rparr> # ps)"
      using p ps(1) by simp
    show "length (\<lparr>position = p, orientation = (0, 0, 0, 1)\<rparr> # ps) = length (pts # xyz)"
      using ps(2) by simp
  next
    fix k assume "k < length (pts # xyz)"
    then show "Point_new ((pts # xyz) ! k) = Inr (position ((\<lparr>position = p, orientation = (0, 0, 0, 1)\<rparr> # ps) ! k))"
      using p ps(3) by (cases k) auto
  next
    fix k assume "k < length (pts # xyz)"
    then show "orientation ((\<lparr>position = p, orientation = (0, 0, 0, 1)\<rparr> # ps) ! k) = (0, 0, 0, 1)"
      using ps(3) by (cases k) auto
  qed
qed

lemma Point_args_error_iff: "(Point_args pts = Inl e) = (pts \<noteq> [] \<and> length pts \<noteq> 3 \<and> e = TypeError)"
  by (cases "(pts)" rule: Point_args.cases) auto

lemma Point_args_ok_iff: "(\<exists>p. Point_args pts = Inr p) = (pts = [] \<or> length pts = 3)"
  by (cases "(pts)" rule: Point_args.cases) auto

text \<open>
  Claim C10, as amended. \<^verbatim>\<open>PoseArrayPublisher.visualise_points\<close> is atomic: if
  constructing the Point of any entry raises, the exception leaves the call before the
  publish step and nothing is published, since the single publish comes after the loop
  that builds every pose. The generated constructor raises TypeError for every entry
  whose number of components is neither 3 nor 0. When every entry has 3 components or
  none, the call publishes exactly one pose list, with one pose per entry.
\<close>

theorem PoseArrayPublisher_visualise_points_atomic:
  "((\<exists>pts\<in>set xyz. \<exists>e. Point_new pts = Inl e) \<longrightarrow>
      (\<exists>e. PoseArrayPublisher_visualise_points Point_new self xyz hdr now = (self, Some e))) \<and>
   ((\<exists>pts\<in>set xyz. pts \<noteq> [] \<and> length pts \<noteq> 3) \<longrightarrow>
      PoseArrayPublisher_visualise_points Point_args self xyz hdr now = (self, Some TypeError)) \<and>
   ((\<forall>pts\<in>set xyz. pts = [] \<or> length pts = 3) \<longrightarrow>
      (\<exists>msg. PoseArrayPublisher_visualise_points Point_args self xyz hdr now =
               (self\<lparr>pap_published := pap_published self @ [msg]\<rparr>, None) \<and>
             length (pa_poses msg) = length xyz))"
proof (intro conjI impI)
  assume "\<exists>pts\<in>set xyz. \<exists>e. Point_new pts = Inl e"
  from build_poses_fail [OF this, of "[]"]
  show "\<exists>e. PoseArrayPublisher_visualise_points Point_new self xyz hdr now = (self, Some e)"
    by (auto simp add: PoseArrayPublisher_visualise_points_def Let_def)
next
  assume "\<exists>pts\<in>set xyz. pts \<noteq> [] \<and> length pts \<noteq> 3"
  then have "\<exists>pts\<in>set xyz. \<exists>e. Point_args pts = Inl e"
    by (simp add: Point_args_error_iff)
  from build_poses_fail [OF this, of "[]"] obtain e where e: "build_poses Point_args [] xyz = Inl e"
    by blast
  from build_poses_fail_with [OF this] have "e = TypeError"
    by (auto simp add: Point_args_error_iff)
  with e show "PoseArrayPublisher_visualise_points Point_args self xyz hdr now = (self, Some TypeError)"
    by (simp add: PoseArrayPublisher_visualise_points_def Let_def)
next
  assume "\<forall>pts\<in>set xyz. pts = [] \<or> length pts = 3"
  then have "\<forall>pts\<in>set xyz. \<exists>p. Point_args pts = Inr p"
    using Point_args_ok_iff by blast
  from build_poses_ok [OF this, of "[]"] obtain ps where
    "build_poses Point_args [] xyz = Inr ps" "length ps = length xyz" by auto
  then show "\<exists>msg. PoseArrayPublisher_visualise_points Point_args self xyz hdr now =
               (self\<lparr>pap_published := pap_published self @ [msg]\<rparr>, None) \<and>
             length (pa_poses msg) = length xyz"
    by (fastforce simp add: PoseArrayPublisher_visualise_points_def Let_def)
qed

text \<open>
  An entry of two components makes the call raise with nothing published; two entries
  of three components give one pose list of two poses, in input order, each with the
  identity orientation.
\<close>

theorem PoseArrayPublisher_visualise_points_atomic_witness:
  "Point_args [PyInt 4, PyInt 5] = Inl TypeError \<and>
   PoseArrayPublisher_visualise_points Point_args (PoseArrayPublisher_init (Some ''map''))
      [[PyInt 1, PyInt 2, PyInt 3], [PyInt 4, PyInt 5]] None 7 =
     (PoseArrayPublisher_init (Some ''map''), Some TypeError) \<and>
   PoseArrayPublisher_visualise_points Point_args (PoseArrayPublisher_init (Some ''map''))
      [[PyInt 0, PyInt 0, PyInt 0], [PyInt 1, PyInt 1, PyInt 1]] None 7 =
     (\<lparr>pap_frame_id = Some ''map'',
       pap_published =
         [\<lparr>pa_header = \<lparr>stamp = 7, frame_id = ''map''\<rparr>,
           pa_poses = [\<lparr>position = (PyInt 0, PyInt 0, PyInt 0), orientation = (0, 0, 0, 1)\<rparr>,
                       \<lparr>position = (PyInt 1, PyInt 1, PyInt 1), orientation = (0, 0, 0, 1)\<rparr>]\<rparr>]\<rparr>,
      None)"
  using PoseArrayPublisher_visualise_points_atomic
    [of "[[PyInt 1, PyInt 2, PyInt 3], [PyInt 4, PyInt 5]]" Point_args
        "PoseArrayPublisher_init (Some ''map'')" None 7]
  by (simp add: PoseArrayPublisher_visualise_points_def PoseArrayPublisher_init_def
      Header_default_def none_to_zero_def)

text \<open>
  The claim as stated fails for an entry without components: \<^verbatim>\<open>Point(*())\<close> is
  \<^verbatim>\<open>Point()\<close>, the default point, so nothing is raised and the pose list is published.
\<close>

theorem PoseArrayPublisher_empty_entry_counterexample:
  "PoseArrayPublisher_visualise_points Point_args (PoseArrayPublisher_init None)
      [[PyInt 1, PyInt 2, PyInt 3], []] None 7 =
     (\<lparr>pap_frame_id = None,
       pap_published =
         [\<lparr>pa_header = \<lparr>stamp = 7, frame_id = []\<rparr>,
           pa_poses = [\<lparr>position = (PyInt 1, PyInt 2, PyInt 3), orientation = (0, 0, 0, 1)\<rparr>,
                       \<lparr>position = (PyFloat 0, PyFloat 0, PyFloat 0), orientation = (0, 0, 0, 1)\<rparr>]\<rparr>]\<rparr>,
      None)"
  by (simp add: PoseArrayPublisher_visualise_points_def PoseArrayPublisher_init_def
      Header_default_def none_to_zero_def)

section \<open>Properties of the renderer\<close>

lemma draw_detection_plain:
  assumes "lc \<noteq> []"
  shows "draw_detection cv lc None img b None =
           (rectangle cv img (pyint (x1 b), pyint (y1 b)) (pyint (x2 b), pyint (y2 b))
              (lc ! nat (\<bar>class_id b\<bar> mod int (length lc))) 1, None)"
  by (simp add: draw_detection_def draw_label_def LabelColours_getitem_nonempty [OF assms] Let_def)

lemma draw_detections_plain:
  assumes "lc \<noteq> []"
  shows "draw_detections cv lc None img (map (\<lambda>b. (b, None)) bs) =
           (foldl (\<lambda>im b. rectangle cv im (pyint (x1 b), pyint (y1 b)) (pyint (x2 b), pyint (y2 b))
                            (lc ! nat (\<bar>class_id b\<bar> mod int (length lc))) 1) img bs, None)"
  by (induction bs arbitrary: img) (simp_all add: draw_detection_plain [OF assms])

lemma draw_detection_no_labels_cong:
  assumes "\<forall>im p q c. rectangle cv' im p q c 1 = rectangle cv im p q c 1"
  shows "draw_detection cv' lc None img b m = draw_detection cv lc None img b m"
  using assms
  by (simp add: draw_detection_def draw_label_def Let_def split: sum.splits option.splits prod.splits)

lemma draw_detections_no_labels_cong:
  assumes "\<forall>im p q c. rectangle cv' im p q c 1 = rectangle cv im p q c 1"
  shows "draw_detections cv' lc None img ds = draw_detections cv lc None img ds"
proof (induction ds arbitrary: img)
  case Nil
  show ?case by simp
next
  case (Cons d ds)
  obtain b m where d: "d = (b, m)" by (cases d)
  show ?case
    unfolding d
    by (simp add: draw_detection_no_labels_cong [OF assms] Cons.IH split: prod.splits option.splits)
qed

lemma draw_label_error:
  "snd (draw_label cv classes img b pt col) = None \<or> snd (draw_label cv classes img b pt col) = Some IndexError"
  by (auto simp add: draw_label_def list_getitem_def Let_def split: option.splits sum.splits prod.splits)

lemma draw_label_ok:
  assumes "\<forall>cl. classes = Some cl \<longrightarrow> - int (length cl) \<le> class_id b \<and> class_id b < int (length cl)"
  shows "snd (draw_label cv classes img b pt col) = None"
  using assms
  by (auto simp add: draw_label_def list_getitem_def Let_def split: option.splits sum.splits prod.splits)

lemma draw_detection_no_mask_error:
  assumes "lc \<noteq> []"
  shows "snd (draw_detection cv lc classes img b None) = None \<or>
         snd (draw_detection cv lc classes img b None) = Some IndexError"
  using draw_label_error
  by (simp add: draw_detection_def LabelColours_getitem_nonempty [OF assms] Let_def)

lemma draw_detections_no_mask_error:
  assumes "lc \<noteq> []"
  shows "snd (draw_detections cv lc classes img (map (\<lambda>b. (b, None)) bs)) = None \<or>
         snd (draw_detections cv lc classes img (map (\<lambda>b. (b, None)) bs)) = Some IndexError"
proof (induction bs arbitrary: img)
  case Nil
  show ?case by simp
next
  case (Cons b bs)
  obtain i1 r1 where d: "draw_detection cv lc classes img b None = (i1, r1)"
    by (cases "draw_detection cv lc classes img b None")
  from draw_detection_no_mask_error [OF assms, of cv classes img b] d
  have "r1 = None \<or> r1 = Some IndexError" by simp
  then show ?case using d Cons.IH [of i1] by auto
qed

lemma draw_detections_no_mask_ok:
  assumes "lc \<noteq> []"
    and "\<forall>b\<in>set bs. \<forall>cl. classes = Some cl \<longrightarrow>
           - int (length cl) \<le> class_id b \<and> class_id b < int (length cl)"
  shows "snd (draw_detections cv lc classes img (map (\<lambda>b. (b, None)) bs)) = None"
  using assms(2)
proof (induction bs arbitrary: img)
  case Nil
  show ?case by simp
next
  case (Cons b bs)
  obtain i1 r1 where d: "draw_detection cv lc classes img b None = (i1, r1)"
    by (cases "draw_detection cv lc classes img b None")
  from Cons.prems have "\<forall>cl. classes = Some cl \<longrightarrow>
           - int (length cl) \<le> class_id b \<and> class_id b < int (length cl)" by simp
  then have "snd (draw_detection cv lc classes img b None) = None"
    by (simp add: draw_detection_def LabelColours_getitem_nonempty [OF assms(1)] Let_def
        draw_label_ok)
  with d have "r1 = None" by simp
  moreover from Cons.prems have "snd (draw_detections cv lc classes i1 (map (\<lambda>b. (b, None)) bs)) = None"
    by (intro Cons.IH) simp
  ultimately show ?case using d by simp
qed

lemma draw_detections_no_mask_noop:
  assumes "lc \<noteq> []" and "\<forall>im p q c t. rectangle cv im p q c t = im" and "\<forall>im s p. putText cv im s p = im"
  shows "fst (draw_detections cv lc classes img (map (\<lambda>b. (b, None)) bs)) = img"
proof (induction bs)
  case Nil
  show ?case by simp
next
  case (Cons b bs)
  have "fst (draw_detection cv lc classes img b None) = img"
    using assms(2,3)
    by (simp add: draw_detection_def draw_label_def LabelColours_getitem_nonempty [OF assms(1)] Let_def
        split: option.splits sum.splits prod.splits)
  then show ?case using Cons.IH
    by (cases "draw_detection cv lc classes img b None") (auto split: option.splits)
qed

lemma label_colours_for_nonempty: "label_colours_for encoding \<noteq> []"
  by (simp add: label_colours_for_def LabelColours_init_def default_colour_list_def Let_def)

lemma draw_detection_msg_no_masks:
  assumes "instances msg = None \<or> instances msg = Some []"
  shows "draw_detection_msg_on_image cv img msg encoding =
           draw_detections cv (label_colours_for encoding) (class_labels msg) img
             (map (\<lambda>b. (b, None)) (bounding_boxes msg))"
  using assms by (auto simp add: draw_detection_msg_on_image_def Let_def)

lemma blend_mask_ok:
  assumes "mask_coords img1 msk = Inr coords" and "length cf = channels img1"
  shows "blend_mask img1 msk cf =
           (img1\<lparr>pix := (\<lambda>r c ch.
                      if (r, c) \<in> set coords \<and> ch < channels img1
                      then to_uint8 (real (unat (pix img1 r c ch)) * 0.5 + cf ! ch)
                      else pix img1 r c ch)\<rparr>, None)"
proof -
  have "(\<lambda>r c ch. if (r, c) \<in> set coords \<and> ch < channels img1
                   then to_uint8 (real (unat (pix img1 r c ch)) * 0.5 +
                                  cf ! (if length cf = 1 then 0 else ch))
                   else pix img1 r c ch) =
        (\<lambda>r c ch. if (r, c) \<in> set coords \<and> ch < channels img1
                   then to_uint8 (real (unat (pix img1 r c ch)) * 0.5 + cf ! ch)
                   else pix img1 r c ch)"
    using assms(2) by (intro ext) auto
  with assms show ?thesis by (simp add: blend_mask_def)
qed

lemma np_coords_in_range:
  assumes "\<forall>(i, j)\<in>set pairs. 0 \<le> i \<and> i < int h \<and> 0 \<le> j \<and> j < int w"
  shows "np_coords h w pairs = Inr (map (\<lambda>(i, j). (nat i, nat j)) pairs)"
  using assms by (induction pairs) (auto simp add: np_index_def)

lemma draw_detection_mask_blend:
  assumes "LabelColours_getitem label_colours (class_id b) = Inr class_colour"
    and "img1 = rectangle cv img (pyint (x1 b), pyint (y1 b)) (pyint (x2 b), pyint (y2 b)) class_colour 1"
    and "mask_coords img1 msk = Inr coords"
    and "length class_colour = channels img1"
  shows "\<exists>img2.
           draw_detection cv label_colours classes img b (Some msk) =
             draw_label cv classes img2 b (pyint (x1 b), pyint (y1 b)) class_colour \<and>
           height img2 = height img1 \<and> width img2 = width img1 \<and> channels img2 = channels img1 \<and>
           (\<forall>r c ch. pix img2 r c ch =
              (if (r, c) \<in> set coords \<and> ch < channels img1
               then to_uint8 (real (unat (pix img1 r c ch)) * 0.5 + real_of_int (class_colour ! ch) / 2)
               else pix img1 r c ch))"
proof -
  let ?cf = "map (\<lambda>f. real_of_int f / 2) class_colour"
  let ?img2 = "img1\<lparr>pix := (\<lambda>r c ch.
                      if (r, c) \<in> set coords \<and> ch < channels img1
                      then to_uint8 (real (unat (pix img1 r c ch)) * 0.5 + ?cf ! ch)
                      else pix img1 r c ch)\<rparr>"
  have len: "length ?cf = channels img1" using assms(4) by simp
  have b: "blend_mask img1 msk ?cf = (?img2, None)"
    using blend_mask_ok [OF assms(3) len] .
  have d: "draw_detection cv label_colours classes img b (Some msk) =
           draw_label cv classes ?img2 b (pyint (x1 b), pyint (y1 b)) class_colour"
    using assms(1) b unfolding assms(2)
    by (simp add: draw_detection_def Let_def)
  have p: "pix ?img2 r c ch =
              (if (r, c) \<in> set coords \<and> ch < channels img1
               then to_uint8 (real (unat (pix img1 r c ch)) * 0.5 + real_of_int (class_colour ! ch) / 2)
               else pix img1 r c ch)" for r c ch
    using assms(4) by simp
  show ?thesis
    apply (rule exI [of _ ?img2])
    using d p by simp
qed

lemma draw_detections_snoc:
  "draw_detections cv lc cl img (ds @ [(b, m)]) =
     (case draw_detections cv lc cl img ds of
        (i, Some e) \<Rightarrow> (i, Some e)
      | (i, None) \<Rightarrow> draw_detection cv lc cl i b m)"
proof (induction ds arbitrary: img)
  case Nil
  show ?case by (simp split: prod.splits option.splits)
next
  case (Cons d ds)
  obtain b0 m0 where d: "d = (b0, m0)" by (cases d)
  show ?case unfolding d by (simp add: Cons.IH split: prod.splits option.splits)
qed

lemma zip_take_Suc:
  assumes "k < length bs" and "length bs = length ms"
  shows "zip (take (Suc k) bs) (map f (take (Suc k) ms)) =
           zip (take k bs) (map f (take k ms)) @ [(bs ! k, f (ms ! k))]"
  using assms by (simp add: take_Suc_conv_app_nth)

lemma draw_detection_msg_upto:
  assumes "length (bounding_boxes msg) = length ms" and "n \<le> length ms"
  shows "draw_detection_msg_on_image cv img
           (msg\<lparr>bounding_boxes := take n (bounding_boxes msg), instances := Some (take n ms)\<rparr>) encoding =
         draw_detections cv (label_colours_for encoding) (class_labels msg) img
           (zip (take n (bounding_boxes msg)) (map (\<lambda>m. Some (seg_x m, seg_y m)) (take n ms)))"
proof (cases "take n ms = []")
  case True
  with assms have "take n (bounding_boxes msg) = []" by (cases n) auto
  with True show ?thesis
    by (simp add: draw_detection_msg_on_image_def Let_def del: take_eq_Nil take_eq_Nil2)
next
  case False
  from assms have "length (take n (bounding_boxes msg)) = length (take n ms)" by simp
  with False show ?thesis by (simp add: draw_detection_msg_on_image_def Let_def)
qed

lemma label_colours_for_triples: "c \<in> set (label_colours_for encoding) \<Longrightarrow> length c = 3"
  by (auto simp add: label_colours_for_def LabelColours_init_def default_colour_list_def Let_def
      split: if_splits)

lemma label_colours_for_getitem:
  "LabelColours_getitem (label_colours_for encoding) i =
     Inr (label_colours_for encoding ! nat (\<bar>i\<bar> mod int (length (label_colours_for encoding)))) \<and>
   length (label_colours_for encoding ! nat (\<bar>i\<bar> mod int (length (label_colours_for encoding)))) = 3"
proof -
  let ?lc = "label_colours_for encoding"
  have ne: "?lc \<noteq> []" by (rule label_colours_for_nonempty)
  then have "nat (\<bar>i\<bar> mod int (length ?lc)) < length ?lc" by (simp add: nat_less_iff)
  then have "?lc ! nat (\<bar>i\<bar> mod int (length ?lc)) \<in> set ?lc" by (rule nth_mem)
  then show ?thesis
    using LabelColours_getitem_nonempty [OF ne] by (simp add: label_colours_for_triples)
qed

subsection \<open>Claims about the renderer\<close>

text \<open>
  Claim C3. When masks are supplied (the \<^verbatim>\<open>instances\<close> field is a non-empty list) and
  their number differs from the number of bounding boxes, the call fails with
  ValueError, the exception that stands for the shape mismatch. The check comes before
  the loop: whatever the drawing functions are, none is applied, and the image buffer
  after the call is the buffer before the call.
\<close>

theorem draw_detection_msg_shape_mismatch:
  "instances msg = Some ms \<Longrightarrow> ms \<noteq> [] \<Longrightarrow> length (bounding_boxes msg) \<noteq> length ms \<Longrightarrow>
   draw_detection_msg_on_image cv img msg encoding = (img, Some ValueError)"
  by (simp add: draw_detection_msg_on_image_def Let_def)

theorem draw_detection_msg_shape_mismatch_witness:
  "(let cv = \<lparr>rectangle = (\<lambda>im p q c t. im\<lparr>pix := (\<lambda>r cc ch. 0)\<rparr>), getTextSize = (\<lambda>s. (8, 8)),
              putText = (\<lambda>im s p. im\<lparr>pix := (\<lambda>r cc ch. 1)\<rparr>), score_percent = (\<lambda>r. 90)\<rparr>;
        img = \<lparr>height = 2, width = 2, channels = 3, pix = (\<lambda>r cc ch. 7)\<rparr>;
        ms = [\<lparr>seg_x = [0], seg_y = [0]\<rparr>, \<lparr>seg_x = [1], seg_y = [1]\<rparr>];
        msg = \<lparr>class_labels = Some [''berry''],
               bounding_boxes = [\<lparr>x1 = 0, y1 = 0, x2 = 1, y2 = 1, class_id = 0, score = 0.9\<rparr>],
               instances = Some ms\<rparr>
    in instances msg = Some ms \<and> length ms = 2 \<and> length (bounding_boxes msg) = 1 \<and>
       draw_detection_msg_on_image cv img msg ''rgb8'' = (img, Some ValueError))"
  using draw_detection_msg_shape_mismatch
    [of "\<lparr>class_labels = Some [''berry''],
               bounding_boxes = [\<lparr>x1 = 0, y1 = 0, x2 = 1, y2 = 1, class_id = 0, score = 0.9\<rparr>],
               instances = Some [\<lparr>seg_x = [0], seg_y = [0]\<rparr>, \<lparr>seg_x = [1], seg_y = [1]\<rparr>]\<rparr>"
        "[\<lparr>seg_x = [0], seg_y = [0]\<rparr>, \<lparr>seg_x = [1], seg_y = [1]\<rparr>]"
        "\<lparr>rectangle = (\<lambda>im p q c t. im\<lparr>pix := (\<lambda>r cc ch. 0)\<rparr>), getTextSize = (\<lambda>s. (8, 8)),
              putText = (\<lambda>im s p. im\<lparr>pix := (\<lambda>r cc ch. 1)\<rparr>), score_percent = (\<lambda>r. 90)\<rparr>"
        "\<lparr>height = 2, width = 2, channels = 3, pix = (\<lambda>r cc ch. 7)\<rparr>" "''rgb8''"]
  by (simp add: Let_def)

text \<open>
  Claim C4. An absent optional field switches its feature off and raises nothing.
  With no class names (\<^verbatim>\<open>class_labels\<close> is \<^verbatim>\<open>None\<close>) and no masks (\<^verbatim>\<open>instances\<close> is
  \<^verbatim>\<open>None\<close> or empty) the call returns normally and the image is the outlines drawn in
  input order, each in the palette colour of its class id. With no class names, the
  result depends on the drawing functions only through the outline calls: no text is
  measured or drawn and no filled rectangle is painted. With no masks, the call raises
  nothing but the IndexError of a class-name subscript, it returns normally when every
  class id is a valid subscript of the class names, and the renderer itself writes no
  pixel (with drawing functions that leave the image alone, the image comes back
  unchanged).
\<close>

theorem absent_optional_fields_skipped:
  "(class_labels msg = None \<and> (instances msg = None \<or> instances msg = Some []) \<longrightarrow>
      draw_detection_msg_on_image cv img msg encoding =
        (foldl (\<lambda>im b. rectangle cv im (pyint (x1 b), pyint (y1 b)) (pyint (x2 b), pyint (y2 b))
                  (label_colours_for encoding !
                     nat (\<bar>class_id b\<bar> mod int (length (label_colours_for encoding)))) 1)
           img (bounding_boxes msg), None)) \<and>
   (class_labels msg = None \<and> (\<forall>im p q c. rectangle cv' im p q c 1 = rectangle cv im p q c 1) \<longrightarrow>
      draw_detection_msg_on_image cv' img msg encoding = draw_detection_msg_on_image cv img msg encoding) \<and>
   ((instances msg = None \<or> instances msg = Some []) \<longrightarrow>
      (snd (draw_detection_msg_on_image cv img msg encoding) = None \<or>
       snd (draw_detection_msg_on_image cv img msg encoding) = Some IndexError) \<and>
      ((\<forall>b\<in>set (bounding_boxes msg). \<forall>cl. class_labels msg = Some cl \<longrightarrow>
           - int (length cl) \<le> class_id b \<and> class_id b < int (length cl)) \<longrightarrow>
         snd (draw_detection_msg_on_image cv img msg encoding) = None) \<and>
      ((\<forall>im p q c t. rectangle cv im p q c t = im) \<and> (\<forall>im s p. putText cv im s p = im) \<longrightarrow>
         fst (draw_detection_msg_on_image cv img msg encoding) = img))"
proof (intro conjI impI)
  assume a: "class_labels msg = None \<and> (instances msg = None \<or> instances msg = Some [])"
  then have "instances msg = None \<or> instances msg = Some []" by simp
  from draw_detection_msg_no_masks [OF this] a
  show "draw_detection_msg_on_image cv img msg encoding =
        (foldl (\<lambda>im b. rectangle cv im (pyint (x1 b), pyint (y1 b)) (pyint (x2 b), pyint (y2 b))
                  (label_colours_for encoding !
                     nat (\<bar>class_id b\<bar> mod int (length (label_colours_for encoding)))) 1)
           img (bounding_boxes msg), None)"
    by (simp add: draw_detections_plain [OF label_colours_for_nonempty])
next
  assume a: "class_labels msg = None \<and> (\<forall>im p q c. rectangle cv' im p q c 1 = rectangle cv im p q c 1)"
  then have r: "\<forall>im p q c. rectangle cv' im p q c 1 = rectangle cv im p q c 1" by simp
  from a show "draw_detection_msg_on_image cv' img msg encoding = draw_detection_msg_on_image cv img msg encoding"
    by (simp add: draw_detection_msg_on_image_def Let_def draw_detections_no_labels_cong [OF r]
        split: option.splits)
next
  assume a: "instances msg = None \<or> instances msg = Some []"
  show "snd (draw_detection_msg_on_image cv img msg encoding) = None \<or>
       snd (draw_detection_msg_on_image cv img msg encoding) = Some IndexError"
    unfolding draw_detection_msg_no_masks [OF a]
    by (rule draw_detections_no_mask_error [OF label_colours_for_nonempty])
next
  assume a: "instances msg = None \<or> instances msg = Some []"
  assume b: "\<forall>b\<in>set (bounding_boxes msg). \<forall>cl. class_labels msg = Some cl \<longrightarrow>
           - int (length cl) \<le> class_id b \<and> class_id b < int (length cl)"
  show "snd (draw_detection_msg_on_image cv img msg encoding) = None"
    unfolding draw_detection_msg_no_masks [OF a]
    by (rule draw_detections_no_mask_ok [OF label_colours_for_nonempty b])
next
  assume a: "instances msg = None \<or> instances msg = Some []"
  assume b: "(\<forall>im p q c t. rectangle cv im p q c t = im) \<and> (\<forall>im s p. putText cv im s p = im)"
  show "fst (draw_detection_msg_on_image cv img msg encoding) = img"
    unfolding draw_detection_msg_no_masks [OF a]
    using b by (intro draw_detections_no_mask_noop [OF label_colours_for_nonempty]) simp_all
qed

theorem absent_optional_fields_skipped_witness:
  "(let cv = \<lparr>rectangle = (\<lambda>im p q c t. im\<lparr>pix := (\<lambda>r cc ch.
                   if int cc = fst p \<and> int r = snd p then word_of_int (c ! ch) else pix im r cc ch)\<rparr>),
              getTextSize = (\<lambda>s. (8, 8)),
              putText = (\<lambda>im s p. im\<lparr>pix := (\<lambda>r cc ch. 1)\<rparr>), score_percent = (\<lambda>r. 90)\<rparr>;
        img = \<lparr>height = 2, width = 2, channels = 3, pix = (\<lambda>r cc ch. 7)\<rparr>;
        msg = \<lparr>class_labels = None,
               bounding_boxes = [\<lparr>x1 = 0.5, y1 = 0.9, x2 = 1.2, y2 = 1.7, class_id = 0, score = 0.9\<rparr>,
                                 \<lparr>x1 = 1, y1 = 0.2, x2 = 1.9, y2 = 1.1, class_id = - 23, score = 0.5\<rparr>],
               instances = Some []\<rparr>
    in class_labels msg = None \<and> instances msg = Some [] \<and>
       snd (draw_detection_msg_on_image cv img msg ''bgr8'') = None \<and>
       pix (fst (draw_detection_msg_on_image cv img msg ''bgr8'')) 0 0 2 = 230 \<and>
       pix (fst (draw_detection_msg_on_image cv img msg ''bgr8'')) 0 1 0 = 75 \<and>
       pix (fst (draw_detection_msg_on_image cv img msg ''bgr8'')) 1 1 0 = 7)"
  using absent_optional_fields_skipped
    [of "\<lparr>class_labels = None,
               bounding_boxes = [\<lparr>x1 = 0.5, y1 = 0.9, x2 = 1.2, y2 = 1.7, class_id = 0, score = 0.9\<rparr>,
                                 \<lparr>x1 = 1, y1 = 0.2, x2 = 1.9, y2 = 1.1, class_id = - 23, score = 0.5\<rparr>],
               instances = Some []\<rparr>"
        "\<lparr>rectangle = (\<lambda>im p q c t. im\<lparr>pix := (\<lambda>r cc ch.
                   if int cc = fst p \<and> int r = snd p then word_of_int (c ! ch) else pix im r cc ch)\<rparr>),
              getTextSize = (\<lambda>s. (8, 8)),
              putText = (\<lambda>im s p. im\<lparr>pix := (\<lambda>r cc ch. 1)\<rparr>), score_percent = (\<lambda>r. 90)\<rparr>"
        "\<lparr>height = 2, width = 2, channels = 3, pix = (\<lambda>r cc ch. 7)\<rparr>" "''bgr8''"]
  by (simp add: Let_def label_colours_for_def LabelColours_init_def default_colour_list_def pyint_def)

text \<open>
  Claim C6. In a call of \<^verbatim>\<open>draw_detection_msg_on_image\<close> on a message with one mask per
  bounding box, take any detection \<open>k\<close>. The call on the first \<open>k\<close> detections is the
  state of the image when the loop reaches detection \<open>k\<close>; the call on the first
  \<open>k + 1\<close> detections is the state after it, and the call on all of them is the call on
  the message. With the colour resolved from the class id of detection \<open>k\<close>, and the
  image as it is after the outline of that detection has been drawn: every channel of
  every pixel selected by the mask of detection \<open>k\<close> becomes \<open>old * 0.5 + colour / 2\<close>,
  the colour being halved on its own before the addition, and the sum is stored into
  the 8-bit image (truncated); every other pixel and the shape of the image are
  unchanged. The label of the detection is drawn afterwards on that image; without
  class names that image is the result.
\<close>

theorem mask_blend_halves_colour:
  assumes "instances msg = Some ms"
    and "length (bounding_boxes msg) = length ms"
    and "k < length ms"
  shows "(let upto = (\<lambda>n. msg\<lparr>bounding_boxes := take n (bounding_boxes msg),
                              instances := Some (take n ms)\<rparr>);
              before = draw_detection_msg_on_image cv img (upto k) encoding;
              after = draw_detection_msg_on_image cv img (upto (Suc k)) encoding;
              b = bounding_boxes msg ! k;
              m = ms ! k;
              pt1 = (pyint (x1 b), pyint (y1 b));
              pt2 = (pyint (x2 b), pyint (y2 b));
              class_colour = label_colours_for encoding !
                               nat (\<bar>class_id b\<bar> mod int (length (label_colours_for encoding)));
              img1 = rectangle cv (fst before) pt1 pt2 class_colour 1
          in upto (length ms) = msg \<and>
             (snd before = None \<and> channels img1 = 3 \<longrightarrow>
                (\<forall>coords. mask_coords img1 (seg_x m, seg_y m) = Inr coords \<longrightarrow>
                   (\<exists>img2. after = draw_label cv (class_labels msg) img2 b pt1 class_colour \<and>
                           (class_labels msg = None \<longrightarrow> after = (img2, None)) \<and>
                           height img2 = height img1 \<and> width img2 = width img1 \<and>
                           channels img2 = channels img1 \<and>
                           (\<forall>r c ch. pix img2 r c ch =
                              (if (r, c) \<in> set coords \<and> ch < channels img1
                               then to_uint8 (real (unat (pix img1 r c ch)) * 0.5 +
                                              real_of_int (class_colour ! ch) / 2)
                               else pix img1 r c ch))))))"
proof -
  let ?bs = "bounding_boxes msg"
  let ?lc = "label_colours_for encoding"
  let ?f = "\<lambda>m. Some (seg_x m, seg_y m)"
  let ?upto = "\<lambda>n. msg\<lparr>bounding_boxes := take n ?bs, instances := Some (take n ms)\<rparr>"
  let ?before = "draw_detection_msg_on_image cv img (?upto k) encoding"
  let ?after = "draw_detection_msg_on_image cv img (?upto (Suc k)) encoding"
  let ?b = "?bs ! k"
  let ?m = "ms ! k"
  let ?pt1 = "(pyint (x1 ?b), pyint (y1 ?b))"
  let ?pt2 = "(pyint (x2 ?b), pyint (y2 ?b))"
  let ?col = "?lc ! nat (\<bar>class_id ?b\<bar> mod int (length ?lc))"
  let ?img1 = "rectangle cv (fst ?before) ?pt1 ?pt2 ?col 1"
  have whole: "?upto (length ms) = msg"
    using assms(1,2) by simp
  have kb: "k < length ?bs" using assms(2,3) by simp
  have bef: "?before = draw_detections cv ?lc (class_labels msg) img
                         (zip (take k ?bs) (map ?f (take k ms)))"
    using assms(2,3) by (intro draw_detection_msg_upto) simp_all
  have aft: "?after = draw_detections cv ?lc (class_labels msg) img
                        (zip (take k ?bs) (map ?f (take k ms)) @ [(?b, ?f ?m)])"
    using assms(2,3) zip_take_Suc [OF kb assms(2), of ?f]
    by (simp add: draw_detection_msg_upto [of msg ms "Suc k"])
  have step: "?after = draw_detection cv ?lc (class_labels msg) (fst ?before) ?b (?f ?m)"
    if "snd ?before = None"
  proof -
    from that have "?before = (fst ?before, None)" by (simp add: prod_eq_iff)
    then have "draw_detections cv ?lc (class_labels msg) img (zip (take k ?bs) (map ?f (take k ms)))
               = (fst ?before, None)"
      using bef by simp
    then show ?thesis
      unfolding aft draw_detections_snoc by simp
  qed
  have main: "\<exists>img2. ?after = draw_label cv (class_labels msg) img2 ?b ?pt1 ?col \<and>
                (class_labels msg = None \<longrightarrow> ?after = (img2, None)) \<and>
                height img2 = height ?img1 \<and> width img2 = width ?img1 \<and>
                channels img2 = channels ?img1 \<and>
                (\<forall>r c ch. pix img2 r c ch =
                   (if (r, c) \<in> set coords \<and> ch < channels ?img1
                    then to_uint8 (real (unat (pix ?img1 r c ch)) * 0.5 + real_of_int (?col ! ch) / 2)
                    else pix ?img1 r c ch))"
    if ok: "snd ?before = None" and ch: "channels ?img1 = 3"
      and mc: "mask_coords ?img1 (seg_x ?m, seg_y ?m) = Inr coords" for coords
  proof -
    from label_colours_for_getitem [of encoding "class_id ?b"]
    have g: "LabelColours_getitem ?lc (class_id ?b) = Inr ?col" and l: "length ?col = 3"
      by simp_all
    from l ch have l': "length ?col = channels ?img1" by simp
    from draw_detection_mask_blend [OF g refl mc l', of "class_labels msg"]
    obtain img2 where i2:
      "draw_detection cv ?lc (class_labels msg) (fst ?before) ?b (Some (seg_x ?m, seg_y ?m)) =
         draw_label cv (class_labels msg) img2 ?b ?pt1 ?col"
      "height img2 = height ?img1" "width img2 = width ?img1" "channels img2 = channels ?img1"
      "\<forall>r c ch. pix img2 r c ch =
                   (if (r, c) \<in> set coords \<and> ch < channels ?img1
                    then to_uint8 (real (unat (pix ?img1 r c ch)) * 0.5 + real_of_int (?col ! ch) / 2)
                    else pix ?img1 r c ch)"
      by blast
    have a: "?after = draw_label cv (class_labels msg) img2 ?b ?pt1 ?col"
      using step [OF ok] i2(1) by simp
    have n: "class_labels msg = None \<longrightarrow> ?after = (img2, None)"
      using a by (simp add: draw_label_def)
    show ?thesis
      apply (rule exI [of _ img2])
      using a n i2(2-5) by blast
  qed
  show ?thesis
    unfolding Let_def using whole main by blast
qed

text \<open>
  A call on two detections with masks and no class names. After the first detection
  the pixel its outline painted keeps the colour (230, 25, 75) under the blend, and the
  other masked pixel goes from 100 to (165, 62, 87). The second detection, of colour
  (60, 180, 75), blends that pixel again, to (112, 121, 81).
\<close>

theorem mask_blend_halves_colour_witness:
  "(let cv = \<lparr>rectangle = (\<lambda>im p q c t. im\<lparr>pix := (\<lambda>r cc ch.
                   if int cc = fst p \<and> int r = snd p then word_of_int (c ! ch) else pix im r cc ch)\<rparr>),
              getTextSize = (\<lambda>s. (8, 8)),
              putText = (\<lambda>im s p. im\<lparr>pix := (\<lambda>r cc ch. 1)\<rparr>), score_percent = (\<lambda>r. 90)\<rparr>;
        img = \<lparr>height = 2, width = 2, channels = 3, pix = (\<lambda>r cc ch. 100)\<rparr>;
        ms = [\<lparr>seg_x = [0, 1], seg_y = [0, 1]\<rparr>, \<lparr>seg_x = [1], seg_y = [1]\<rparr>];
        msg = \<lparr>class_labels = None,
               bounding_boxes = [\<lparr>x1 = 0.5, y1 = 0.9, x2 = 1.2, y2 = 1.7, class_id = 0, score = 0.9\<rparr>,
                                 \<lparr>x1 = 1, y1 = 0.2, x2 = 1.9, y2 = 1.1, class_id = 1, score = 0.5\<rparr>],
               instances = Some ms\<rparr>;
        first = msg\<lparr>bounding_boxes := take 1 (bounding_boxes msg), instances := Some (take 1 ms)\<rparr>;
        result1 = draw_detection_msg_on_image cv img first ''rgb8'';
        result = draw_detection_msg_on_image cv img msg ''rgb8''
    in instances msg = Some ms \<and> length (bounding_boxes msg) = length ms \<and> (1 :: nat) < length ms \<and>
       snd result1 = None \<and>
       pix (fst result1) 0 0 0 = 230 \<and> pix (fst result1) 0 0 1 = 25 \<and> pix (fst result1) 0 0 2 = 75 \<and>
       pix (fst result1) 1 1 0 = 165 \<and> pix (fst result1) 1 1 1 = 62 \<and> pix (fst result1) 1 1 2 = 87 \<and>
       pix (fst result1) 0 1 0 = 100 \<and>
       snd result = None \<and>
       pix (fst result) 1 1 0 = 112 \<and> pix (fst result) 1 1 1 = 121 \<and> pix (fst result) 1 1 2 = 81 \<and>
       pix (fst result) 0 0 0 = 230 \<and> pix (fst result) 0 1 1 = 180 \<and> pix (fst result) 1 0 2 = 100)"
  using mask_blend_halves_colour
    [of "\<lparr>class_labels = None,
               bounding_boxes = [\<lparr>x1 = 0.5, y1 = 0.9, x2 = 1.2, y2 = 1.7, class_id = 0, score = 0.9\<rparr>,
                                 \<lparr>x1 = 1, y1 = 0.2, x2 = 1.9, y2 = 1.1, class_id = 1, score = 0.5\<rparr>],
               instances = Some [\<lparr>seg_x = [0, 1], seg_y = [0, 1]\<rparr>, \<lparr>seg_x = [1], seg_y = [1]\<rparr>]\<rparr>"
        "[\<lparr>seg_x = [0, 1], seg_y = [0, 1]\<rparr>, \<lparr>seg_x = [1], seg_y = [1]\<rparr>]" 1
        "\<lparr>rectangle = (\<lambda>im p q c t. im\<lparr>pix := (\<lambda>r cc ch.
                   if int cc = fst p \<and> int r = snd p then word_of_int (c ! ch) else pix im r cc ch)\<rparr>),
              getTextSize = (\<lambda>s. (8, 8)),
              putText = (\<lambda>im s p. im\<lparr>pix := (\<lambda>r cc ch. 1)\<rparr>), score_percent = (\<lambda>r. 90)\<rparr>"
        "\<lparr>height = 2, width = 2, channels = 3, pix = (\<lambda>r cc ch. 100)\<rparr>" "''rgb8''"]
  by (simp add: Let_def draw_detection_msg_on_image_def label_colours_for_def LabelColours_init_def
      LabelColours_getitem_def list_getitem_def default_colour_list_def pyint_def
      mask_coords_def np_broadcast_pairs_def np_index_def draw_detection_def draw_label_def
      blend_mask_def to_uint8_def)

end
